theory Spec2Isabelle
  imports Main "HOL-Library.Sublist" "HOL-Library.Char_ord" "HOL-Library.List_Lexorder"
begin

section \<open>serve-local.py: a static file server with cross-origin isolation headers\<close>

text \<open>
  The program is one script, \<^verbatim>\<open>src/serve-local.py\<close>:
  \<^verbatim>\<open>
  PORT = 8000

  class MyHTTPRequestHandler(http.server.SimpleHTTPRequestHandler):
      def end_headers(self):
          self.send_header('Cross-Origin-Embedder-Policy', 'require-corp')
          self.send_header('Cross-Origin-Opener-Policy', 'same-origin')
          super().end_headers()

  os.chdir('/mnt/c/Users/millz/vib34d-fix')

  with socketserver.TCPServer(("", PORT), MyHTTPRequestHandler) as httpd:
      print(f"... Serving VIB34D system at http://localhost:{PORT}")
      print(f"... Live test: http://localhost:{PORT}/live-test.html")
      httpd.serve_forever()
  \<close>
  Everything else it does is done by the classes it instantiates and inherits from:
  \<^verbatim>\<open>socketserver.TCPServer\<close> and \<^verbatim>\<open>http.server.SimpleHTTPRequestHandler\<close> of the
  Python standard library. The script's own statements are embedded line by line. The
  inherited methods are embedded from the library's text (CPython 3.11,
  \<^verbatim>\<open>Lib/socketserver.py\<close> and \<^verbatim>\<open>Lib/http/server.py\<close>), quoted beside each definition;
  the operating system and the library functions below that level are parameters.
\<close>

subsection \<open>Python values\<close>

text \<open>
  A Python \<^verbatim>\<open>str\<close> and a \<^verbatim>\<open>bytes\<close> object are both modelled as a \<^typ>\<open>string\<close>. A
  request line is decoded as iso-8859-1, so each of its characters is one byte and one
  \<^typ>\<open>char\<close>, and the headers of a response are encoded back as latin-1. Code points
  above 255, which percent-decoding and file names can hold, are outside the model.
\<close>

datatype errno = ENOENT | EACCES | ENOTDIR | EADDRINUSE | EOTHER

text \<open>
  Exceptions. \<^verbatim>\<open>FileNotFoundError\<close>, \<^verbatim>\<open>PermissionError\<close> and the error of a failed
  \<^verbatim>\<open>bind\<close> are \<^verbatim>\<open>OSError\<close>s, told apart by their errno. \<^verbatim>\<open>ValueError\<close> (which
  includes \<^verbatim>\<open>UnicodeEncodeError\<close>) is not an \<^verbatim>\<open>OSError\<close>.
\<close>

datatype py_exc = OSError errno | ValueError | OtherException

fun is_OSError :: "py_exc \<Rightarrow> bool" where
  "is_OSError (OSError _) = True"
| "is_OSError _ = False"

text \<open>How a statement ends: normally, by raising, or not at all (it blocks forever).\<close>

datatype completion = Normal | Raises py_exc | Blocks

text \<open>How a call that returns a value ends.\<close>

datatype 'a outcome = Returns 'a | Throws py_exc

text \<open>\<^verbatim>\<open>str(n)\<close> for a natural number: its decimal digits.\<close>

definition digit_char :: "nat \<Rightarrow> char" where
  "digit_char d = ''0123456789'' ! d"

function str_nat :: "nat \<Rightarrow> string" where
  "str_nat n = (if n < 10 then [digit_char n] else str_nat (n div 10) @ [digit_char (n mod 10)])"
  by pat_completeness auto
termination
  by (relation "measure id") auto

declare str_nat.simps [simp del]

definition LF :: string where
  "LF = [CHR 0x0A]"

definition CRLF :: string where
  "CRLF = [CHR 0x0D, CHR 0x0A]"

text \<open>\<^verbatim>\<open>s.startswith(p)\<close> and \<^verbatim>\<open>s.endswith(p)\<close>.\<close>

definition startswith :: "string \<Rightarrow> string \<Rightarrow> bool" where
  "startswith s p = prefix p s"

definition endswith :: "string \<Rightarrow> string \<Rightarrow> bool" where
  "endswith s p = suffix p s"

text \<open>\<^verbatim>\<open>s.split(sep)\<close> for a separator of one character: always at least one piece.\<close>

fun split_on :: "char \<Rightarrow> string \<Rightarrow> string list" where
  "split_on sep [] = [[]]"
| "split_on sep (c # cs) =
     (if c = sep then [] # split_on sep cs
      else (c # hd (split_on sep cs)) # tl (split_on sep cs))"

text \<open>\<^verbatim>\<open>s.split(sep, 1)[0]\<close> and \<^verbatim>\<open>s.split(sep, 1)[1]\<close> (the latter when \<open>sep\<close> occurs).\<close>

definition before_first :: "char \<Rightarrow> string \<Rightarrow> string" where
  "before_first sep s = takeWhile (\<lambda>c. c \<noteq> sep) s"

definition after_first :: "char \<Rightarrow> string \<Rightarrow> string" where
  "after_first sep s = drop 1 (dropWhile (\<lambda>c. c \<noteq> sep) s)"

text \<open>\<^verbatim>\<open>sep.join(pieces)\<close>.\<close>

fun join_with :: "string \<Rightarrow> string list \<Rightarrow> string" where
  "join_with sep [] = []"
| "join_with sep [w] = w"
| "join_with sep (w # ws) = w @ sep @ join_with sep ws"

text \<open>
  \<^verbatim>\<open>c.isspace()\<close> for a code point below 256, and with it \<^verbatim>\<open>s.split()\<close>,
  \<^verbatim>\<open>s.rstrip()\<close>, \<^verbatim>\<open>s.rstrip(chars)\<close> and \<^verbatim>\<open>s.lstrip(chars)\<close>.
\<close>

definition isspace :: "char \<Rightarrow> bool" where
  "isspace c = (c \<in> set [CHR 0x09, CHR 0x0A, CHR 0x0B, CHR 0x0C, CHR 0x0D, CHR 0x1C, CHR 0x1D,
     CHR 0x1E, CHR 0x1F, CHR 0x20, CHR 0x85, CHR 0xA0])"

fun split_ws_acc :: "string \<Rightarrow> string \<Rightarrow> string list" where
  "split_ws_acc w [] = (if w = [] then [] else [w])"
| "split_ws_acc w (c # cs) =
     (if isspace c then (if w = [] then split_ws_acc [] cs else w # split_ws_acc [] cs)
      else split_ws_acc (w @ [c]) cs)"

definition split_ws :: "string \<Rightarrow> string list" where
  "split_ws s = split_ws_acc [] s"

definition rstrip_chars :: "char list \<Rightarrow> string \<Rightarrow> string" where
  "rstrip_chars chars s = rev (dropWhile (\<lambda>c. c \<in> set chars) (rev s))"

definition rstrip :: "string \<Rightarrow> string" where
  "rstrip s = rev (dropWhile isspace (rev s))"

definition lstrip_chars :: "char list \<Rightarrow> string \<Rightarrow> string" where
  "lstrip_chars chars s = dropWhile (\<lambda>c. c \<in> set chars) s"

text \<open>\<^verbatim>\<open>html.escape(s, quote=False)\<close>: the characters \<open>&\<close>, \<open><\<close> and \<open>>\<close> are replaced.\<close>

definition escape_char :: "char \<Rightarrow> string" where
  "escape_char c =
     (if c = CHR ''&'' then ''&amp;'' else if c = CHR ''<'' then ''&lt;''
      else if c = CHR ''>'' then ''&gt;'' else [c])"

definition html_escape :: "string \<Rightarrow> string" where
  "html_escape s = concat (map escape_char s)"

text \<open>
  \<^verbatim>\<open>s.encode('UTF-8', 'replace')\<close> for code points below 256: one byte below 128, two
  bytes from there on.
\<close>

fun utf8_char :: "char \<Rightarrow> string" where
  "utf8_char (Char b0 b1 b2 b3 b4 b5 b6 b7) =
     (if b7 then [Char b6 b7 False False False False True True,
                  Char b0 b1 b2 b3 b4 b5 False True]
      else [Char b0 b1 b2 b3 b4 b5 b6 b7])"

definition utf8_encode :: "string \<Rightarrow> string" where
  "utf8_encode s = concat (map utf8_char s)"

text \<open>
  \<^verbatim>\<open>c.isdigit()\<close> for a code point below 256 (the superscripts 1, 2 and 3 are digits to
  it), and \<^verbatim>\<open>int(s)\<close> for a string it has let through: \<^verbatim>\<open>int\<close> raises \<^verbatim>\<open>ValueError\<close>
  (\<open>None\<close>) unless every character is an ASCII digit.
\<close>

definition isdigit :: "char \<Rightarrow> bool" where
  "isdigit c = (c \<in> set ''0123456789'' \<or> c \<in> set [CHR 0xB2, CHR 0xB3, CHR 0xB9])"

definition str_isdigit :: "string \<Rightarrow> bool" where
  "str_isdigit s = (s \<noteq> [] \<and> list_all isdigit s)"

fun digit_val :: "char \<Rightarrow> nat option" where
  "digit_val c = (if c \<in> set ''0123456789'' then Some (of_char c - 48) else None)"

fun int_acc :: "nat \<Rightarrow> string \<Rightarrow> nat option" where
  "int_acc n [] = Some n"
| "int_acc n (c # cs) = (case digit_val c of None \<Rightarrow> None | Some d \<Rightarrow> int_acc (10 * n + d) cs)"

definition py_int :: "string \<Rightarrow> nat option" where
  "py_int s = (if s = [] then None else int_acc 0 s)"

subsection \<open>posixpath\<close>

text \<open>
  \<^verbatim>\<open>
  def join(a, *p):
      path = a
      for b in p:
          if b.startswith(sep):
              path = b
          elif not path or path.endswith(sep):
              path += b
          else:
              path += sep + b
      return path

  def dirname(p):
      i = p.rfind(sep) + 1
      head = p[:i]
      if head and head != sep*len(head):
          head = head.rstrip(sep)
      return head

  def normpath(path):
      if path == empty:
          return dot
      initial_slashes = path.startswith(sep)
      if (initial_slashes and
          path.startswith(sep*2) and not path.startswith(sep*3)):
          initial_slashes = 2
      comps = path.split(sep)
      new_comps = []
      for comp in comps:
          if comp in (empty, dot):
              continue
          if (comp != dotdot or (not initial_slashes and not new_comps) or
               (new_comps and new_comps[-1] == dotdot)):
              new_comps.append(comp)
          elif new_comps:
              new_comps.pop()
      comps = new_comps
      path = sep.join(comps)
      if initial_slashes:
          path = sep*initial_slashes + path
      return path or dot
  \<close>
\<close>

definition path_join :: "string \<Rightarrow> string \<Rightarrow> string" where
  "path_join a b =
     (if startswith b ''/'' then b
      else if a = [] \<or> endswith a ''/'' then a @ b
      else a @ ''/'' @ b)"

definition dirname :: "string \<Rightarrow> string" where
  "dirname p =
     (let head = rev (dropWhile (\<lambda>c. c \<noteq> CHR ''/'') (rev p))
      in if head \<noteq> [] \<and> head \<noteq> replicate (length head) CHR ''/''
         then rstrip_chars ''/'' head else head)"

definition initial_slashes :: "string \<Rightarrow> nat" where
  "initial_slashes p =
     (if startswith p ''/'' then
        (if startswith p ''//'' \<and> \<not> startswith p ''///'' then 2 else 1)
      else 0)"

fun normpath_loop :: "nat \<Rightarrow> string list \<Rightarrow> string list \<Rightarrow> string list" where
  "normpath_loop ini new_comps [] = new_comps"
| "normpath_loop ini new_comps (part # comps) =
     (if part = [] \<or> part = ''.'' then normpath_loop ini new_comps comps
      else if part \<noteq> ''..'' \<or> (ini = 0 \<and> new_comps = [])
              \<or> (new_comps \<noteq> [] \<and> last new_comps = ''..'')
        then normpath_loop ini (new_comps @ [part]) comps
      else if new_comps \<noteq> [] then normpath_loop ini (butlast new_comps) comps
      else normpath_loop ini new_comps comps)"

definition normpath :: "string \<Rightarrow> string" where
  "normpath p =
     (if p = [] then ''.''
      else let ini = initial_slashes p;
               q = replicate ini CHR ''/'' @ join_with ''/'' (normpath_loop ini [] (split_on CHR ''/'' p))
           in if q = [] then ''.'' else q)"

subsection \<open>The operating system and the library\<close>

text \<open>
  The operating system is a parameter. \<open>chdir_error\<close> is what \<^verbatim>\<open>os.chdir\<close> raises for a
  path (\<open>None\<close>: it succeeds), \<open>getcwd_in\<close> the name \<^verbatim>\<open>os.getcwd\<close> returns once the
  process has changed into a path, \<open>bind_error\<close> what \<^verbatim>\<open>socket.bind\<close> raises for an
  address for a reason other than the port being taken (insufficient privilege, say).
  \<open>isdir\<close>, \<open>isfile\<close> and \<open>islink\<close> are \<^verbatim>\<open>os.path.isdir\<close>, \<^verbatim>\<open>os.path.isfile\<close> and
  \<^verbatim>\<open>os.path.islink\<close>, which never raise; \<open>open_rb\<close> is \<^verbatim>\<open>open(path, 'rb')\<close> together
  with \<^verbatim>\<open>os.fstat\<close> of the file it returns, and \<open>listdir\<close> is \<^verbatim>\<open>os.listdir\<close>: each
  returns or raises. \<open>bound\<close> is state: the addresses that live TCP sockets of any process
  are bound to. Reading an open file and writing to a connection, to standard output and
  to standard error are taken to succeed.
\<close>

record py_file =
  content :: string
  st_size :: nat
  st_mtime :: nat

record kernel =
  chdir_error :: "string \<Rightarrow> py_exc option"
  getcwd_in :: "string \<Rightarrow> string"
  bind_error :: "string \<times> nat \<Rightarrow> py_exc option"
  isdir :: "string \<Rightarrow> bool"
  isfile :: "string \<Rightarrow> bool"
  islink :: "string \<Rightarrow> bool"
  open_rb :: "string \<Rightarrow> py_file outcome"
  listdir :: "string \<Rightarrow> string list outcome"
  bound :: "(string \<times> nat) list"

text \<open>
  The library functions below the two classes are parameters as well:
  \<^verbatim>\<open>urllib.parse.unquote(s, errors='surrogatepass')\<close> (\<open>None\<close>: it raises
  \<^verbatim>\<open>UnicodeDecodeError\<close>), \<^verbatim>\<open>urllib.parse.unquote(s)\<close>,
  \<^verbatim>\<open>urllib.parse.quote(s, errors='surrogatepass')\<close>, \<^verbatim>\<open>urllib.parse.urlsplit\<close> (which
  can raise \<^verbatim>\<open>ValueError\<close>) and \<^verbatim>\<open>urlunsplit\<close>, \<^verbatim>\<open>str.lower\<close>, \<^verbatim>\<open>repr\<close> of a
  \<^verbatim>\<open>str\<close>, the handler's \<^verbatim>\<open>guess_type\<close>, \<^verbatim>\<open>email.utils.formatdate(t, usegmt=True)\<close>,
  the class attribute \<^verbatim>\<open>sys_version\<close>, \<^verbatim>\<open>sys.getfilesystemencoding()\<close> with the bytes
  that encoding gives each character, and \<open>not_modified_since v t\<close>: the value \<open>v\<close> of an
  \<^verbatim>\<open>If-Modified-Since\<close> header parses as a date that is in UTC and not earlier than the
  modification time \<open>t\<close>.
\<close>

record pylib =
  unquote_surrogatepass :: "string \<Rightarrow> string option"
  unquote :: "string \<Rightarrow> string"
  quote :: "string \<Rightarrow> string"
  urlsplit :: "string \<Rightarrow> (string \<times> string \<times> string \<times> string \<times> string) outcome"
  urlunsplit :: "string \<times> string \<times> string \<times> string \<times> string \<Rightarrow> string"
  lower :: "string \<Rightarrow> string"
  repr :: "string \<Rightarrow> string"
  guess_type :: "string \<Rightarrow> string"
  formatdate :: "nat \<Rightarrow> string"
  sys_version :: string
  fs_encoding :: string
  fs_encode_char :: "char \<Rightarrow> string"
  not_modified_since :: "string \<Rightarrow> nat \<Rightarrow> bool"

text \<open>
  What a process does that is visible outside it, in the order it does it. \<open>Stat\<close> is the
  system call behind \<^verbatim>\<open>isdir\<close> and \<^verbatim>\<open>isfile\<close>, \<open>Lstat\<close> the one behind \<^verbatim>\<open>islink\<close>;
  \<open>Send\<close> is one \<^verbatim>\<open>write\<close> to the connection (the handler's \<^verbatim>\<open>wfile\<close> is unbuffered);
  \<open>Log_message m\<close> is the line \<^verbatim>\<open>log_message\<close> writes to standard error, made of the
  client's address, the time and \<open>m\<close>. The last three are calls that change the file
  system: \<open>Write_file\<close> is \<^verbatim>\<open>open(path, 'wb')\<close> with the \<^verbatim>\<open>write\<close>s and the
  \<^verbatim>\<open>close\<close> that follow it, \<open>Remove\<close> is \<^verbatim>\<open>os.remove\<close> or \<^verbatim>\<open>os.rmdir\<close>,
  \<open>Mkdir\<close> is \<^verbatim>\<open>os.mkdir\<close>.
\<close>

datatype event =
    Chdir string
  | Socket_bind string nat
  | Socket_listen nat
  | Socket_close
  | Stdout string
  | Stderr_traceback py_exc
  | Accept
  | Getcwd
  | Stat string
  | Lstat string
  | Open_rb string
  | Listdir string
  | Send string
  | Log_message string
  | Shutdown_request
  | Write_file string py_file
  | Remove string
  | Mkdir string

text \<open>
  What a call does to the file system. A file written is a file from then on, and opening
  it gives what was written; a path removed is nothing any more; a directory made is an
  empty directory. Every other call leaves the file system as it is.
\<close>

fun changes_files :: "event \<Rightarrow> bool" where
  "changes_files (Write_file p f) = True"
| "changes_files (Remove p) = True"
| "changes_files (Mkdir p) = True"
| "changes_files _ = False"

fun fs_effect :: "kernel \<Rightarrow> event \<Rightarrow> kernel" where
  "fs_effect k (Write_file p f) =
     k\<lparr>isfile := (isfile k)(p := True), open_rb := (open_rb k)(p := Returns f)\<rparr>"
| "fs_effect k (Remove p) =
     k\<lparr>isdir := (isdir k)(p := False), isfile := (isfile k)(p := False),
       islink := (islink k)(p := False),
       open_rb := (open_rb k)(p := Throws (OSError ENOENT)),
       listdir := (listdir k)(p := Throws (OSError ENOENT))\<rparr>"
| "fs_effect k (Mkdir p) =
     k\<lparr>isdir := (isdir k)(p := True), listdir := (listdir k)(p := Returns [])\<rparr>"
| "fs_effect k _ = k"

subsection \<open>http.server.BaseHTTPRequestHandler\<close>

text \<open>
  What a connection brings: the first line \<^verbatim>\<open>rfile.readline(65537)\<close> returns, what
  \<^verbatim>\<open>http.client.parse_headers\<close> makes of the lines after it (the headers as pairs, or one
  of its two exceptions with its text), and the time at which the request is served.
\<close>

datatype header_parse =
    Headers "(string \<times> string) list"
  | LineTooLong string
  | HTTPException string

record request =
  raw_requestline :: string
  parsed_headers :: header_parse
  now :: nat

text \<open>
  The handler object. \<open>headers_buffer\<close> is the attribute \<^verbatim>\<open>_headers_buffer\<close>, which the
  class creates on first use: no attribute and the empty list are modelled alike.
  \<open>events\<close> is what the handler has done so far.
\<close>

record handler =
  directory :: string
  request :: request
  requestline :: string
  command :: "string option"
  path :: string
  request_version :: string
  headers :: "(string \<times> string) list"
  headers_buffer :: "string list"
  events :: "event list"

text \<open>The members of \<^verbatim>\<open>HTTPStatus\<close> the two classes use, with \<^verbatim>\<open>responses[code]\<close>.\<close>

datatype http_status =
    OK
  | MOVED_PERMANENTLY
  | NOT_MODIFIED
  | BAD_REQUEST
  | NOT_FOUND
  | REQUEST_URI_TOO_LONG
  | REQUEST_HEADER_FIELDS_TOO_LARGE
  | NOT_IMPLEMENTED
  | HTTP_VERSION_NOT_SUPPORTED

fun status_code :: "http_status \<Rightarrow> nat" where
  "status_code OK = 200"
| "status_code MOVED_PERMANENTLY = 301"
| "status_code NOT_MODIFIED = 304"
| "status_code BAD_REQUEST = 400"
| "status_code NOT_FOUND = 404"
| "status_code REQUEST_URI_TOO_LONG = 414"
| "status_code REQUEST_HEADER_FIELDS_TOO_LARGE = 431"
| "status_code NOT_IMPLEMENTED = 501"
| "status_code HTTP_VERSION_NOT_SUPPORTED = 505"

fun phrase :: "http_status \<Rightarrow> string" where
  "phrase OK = ''OK''"
| "phrase MOVED_PERMANENTLY = ''Moved Permanently''"
| "phrase NOT_MODIFIED = ''Not Modified''"
| "phrase BAD_REQUEST = ''Bad Request''"
| "phrase NOT_FOUND = ''Not Found''"
| "phrase REQUEST_URI_TOO_LONG = ''Request-URI Too Long''"
| "phrase REQUEST_HEADER_FIELDS_TOO_LARGE = ''Request Header Fields Too Large''"
| "phrase NOT_IMPLEMENTED = ''Not Implemented''"
| "phrase HTTP_VERSION_NOT_SUPPORTED = ''HTTP Version Not Supported''"

fun description :: "http_status \<Rightarrow> string" where
  "description OK = ''Request fulfilled, document follows''"
| "description MOVED_PERMANENTLY = ''Object moved permanently -- see URI list''"
| "description NOT_MODIFIED = ''Document has not changed since given time''"
| "description BAD_REQUEST = ''Bad request syntax or unsupported method''"
| "description NOT_FOUND = ''Nothing matches the given URI''"
| "description REQUEST_URI_TOO_LONG = ''URI is too long''"
| "description REQUEST_HEADER_FIELDS_TOO_LARGE =
     ''The server is unwilling to process the request because its header fields are too large''"
| "description NOT_IMPLEMENTED = ''Server does not support this operation''"
| "description HTTP_VERSION_NOT_SUPPORTED = ''Cannot fulfill request''"

definition protocol_version :: string where
  "protocol_version = ''HTTP/1.0''"

definition default_request_version :: string where
  "default_request_version = ''HTTP/0.9''"

definition server_version :: string where
  "server_version = ''SimpleHTTP/0.6''"

definition error_content_type :: string where
  "error_content_type = ''text/html;charset=utf-8''"

text \<open>
  \<^verbatim>\<open>
  def log_request(self, code='-', size='-'):
      self.log_message('"%s" %s %s', self.requestline, str(code), str(size))

  def log_error(self, format, *args):
      self.log_message(format, *args)

  def version_string(self):
      return self.server_version + ' ' + self.sys_version

  def date_time_string(self, timestamp=None):
      if timestamp is None:
          timestamp = time.time()
      return email.utils.formatdate(timestamp, usegmt=True)
  \<close>
\<close>

definition log_message :: "string \<Rightarrow> handler \<Rightarrow> handler" where
  "log_message m h = h\<lparr>events := events h @ [Log_message m]\<rparr>"

definition log_request :: "http_status \<Rightarrow> handler \<Rightarrow> handler" where
  \<open>log_request code h =
     log_message ([CHR 0x22] @ requestline h @ [CHR 0x22] @ '' '' @ str_nat (status_code code) @ '' -'') h\<close>

definition log_error :: "string \<Rightarrow> handler \<Rightarrow> handler" where
  "log_error m h = log_message m h"

definition version_string :: "pylib \<Rightarrow> string" where
  "version_string lib = server_version @ '' '' @ sys_version lib"

definition date_time_string :: "pylib \<Rightarrow> nat \<Rightarrow> string" where
  "date_time_string lib timestamp = formatdate lib timestamp"

definition wfile_write :: "string \<Rightarrow> handler \<Rightarrow> handler" where
  "wfile_write b h = h\<lparr>events := events h @ [Send b]\<rparr>"

text \<open>
  \<^verbatim>\<open>
  def send_response_only(self, code, message=None):
      if self.request_version != 'HTTP/0.9':
          if message is None:
              if code in self.responses:
                  message = self.responses[code][0]
              else:
                  message = ''
          if not hasattr(self, '_headers_buffer'):
              self._headers_buffer = []
          self._headers_buffer.append(("%s %d %s\r\n" %
                  (self.protocol_version, code, message)).encode('latin-1', 'strict'))

  def send_header(self, keyword, value):
      if self.request_version != 'HTTP/0.9':
          if not hasattr(self, '_headers_buffer'):
              self._headers_buffer = []
          self._headers_buffer.append(
              ("%s: %s\r\n" % (keyword, value)).encode('latin-1', 'strict'))
      if keyword.lower() == 'connection':
          if value.lower() == 'close':
              self.close_connection = True
          elif value.lower() == 'keep-alive':
              self.close_connection = False

  def end_headers(self):
      if self.request_version != 'HTTP/0.9':
          self._headers_buffer.append(b"\r\n")
          self.flush_headers()

  def flush_headers(self):
      if hasattr(self, '_headers_buffer'):
          self.wfile.write(b"".join(self._headers_buffer))
          self._headers_buffer = []

  def send_response(self, code, message=None):
      self.log_request(code)
      self.send_response_only(code, message)
      self.send_header('Server', self.version_string())
      self.send_header('Date', self.date_time_string())
  \<close>
  \<^verbatim>\<open>close_connection\<close> is left out: \<^verbatim>\<open>protocol_version\<close> is \<^verbatim>\<open>"HTTP/1.0"\<close>, under which
  it is true after every request, so \<^verbatim>\<open>handle\<close> serves one request for each connection.
  The library's \<^verbatim>\<open>end_headers\<close> is \<open>base_end_headers\<close> here; \<open>end_headers\<close> is the
  script's.
\<close>

definition send_response_only :: "http_status \<Rightarrow> string option \<Rightarrow> handler \<Rightarrow> handler" where
  "send_response_only code message h =
     (if request_version h \<noteq> ''HTTP/0.9'' then
        h\<lparr>headers_buffer := headers_buffer h @
             [protocol_version @ '' '' @ str_nat (status_code code) @ '' ''
                @ (case message of None \<Rightarrow> phrase code | Some m \<Rightarrow> m) @ CRLF]\<rparr>
      else h)"

definition send_header :: "string \<Rightarrow> string \<Rightarrow> handler \<Rightarrow> handler" where
  "send_header keyword v h =
     (if request_version h \<noteq> ''HTTP/0.9'' then
        h\<lparr>headers_buffer := headers_buffer h @ [keyword @ '': '' @ v @ CRLF]\<rparr>
      else h)"

definition flush_headers :: "handler \<Rightarrow> handler" where
  "flush_headers h =
     (if headers_buffer h = [] then h
      else wfile_write (concat (headers_buffer h)) (h\<lparr>headers_buffer := []\<rparr>))"

definition base_end_headers :: "handler \<Rightarrow> handler" where
  "base_end_headers h =
     (if request_version h \<noteq> ''HTTP/0.9'' then
        flush_headers (h\<lparr>headers_buffer := headers_buffer h @ [CRLF]\<rparr>)
      else h)"

subsection \<open>MyHTTPRequestHandler\<close>

text \<open>
  The script's one method:
  \<^verbatim>\<open>
  def end_headers(self):
      self.send_header('Cross-Origin-Embedder-Policy', 'require-corp')
      self.send_header('Cross-Origin-Opener-Policy', 'same-origin')
      super().end_headers()
  \<close>
  Every \<^verbatim>\<open>self.end_headers()\<close> in the inherited methods is a call of this one.
\<close>

definition end_headers :: "handler \<Rightarrow> handler" where
  "end_headers h =
     base_end_headers
       (send_header ''Cross-Origin-Opener-Policy'' ''same-origin''
          (send_header ''Cross-Origin-Embedder-Policy'' ''require-corp'' h))"

subsection \<open>The inherited methods that answer a request\<close>

definition send_response :: "pylib \<Rightarrow> http_status \<Rightarrow> string option \<Rightarrow> handler \<Rightarrow> handler" where
  "send_response lib code message h =
     send_header ''Date'' (date_time_string lib (now (request h)))
       (send_header ''Server'' (version_string lib)
          (send_response_only code message (log_request code h)))"

text \<open>
  \<^verbatim>\<open>DEFAULT_ERROR_MESSAGE\<close> with its three fields filled in.
\<close>

definition error_message :: "nat \<Rightarrow> string \<Rightarrow> string \<Rightarrow> string" where
  \<open>error_message code message explain =
     ''<!DOCTYPE HTML>'' @ LF @
     ''<html lang="en">'' @ LF @
     ''    <head>'' @ LF @
     ''        <meta charset="utf-8">'' @ LF @
     ''        <title>Error response</title>'' @ LF @
     ''    </head>'' @ LF @
     ''    <body>'' @ LF @
     ''        <h1>Error response</h1>'' @ LF @
     ''        <p>Error code: '' @ str_nat code @ ''</p>'' @ LF @
     ''        <p>Message: '' @ message @ ''.</p>'' @ LF @
     ''        <p>Error code explanation: '' @ str_nat code @ '' - '' @ explain @ ''.</p>'' @ LF @
     ''    </body>'' @ LF @
     ''</html>'' @ LF\<close>

text \<open>
  \<^verbatim>\<open>
  def send_error(self, code, message=None, explain=None):
      try:
          shortmsg, longmsg = self.responses[code]
      except KeyError:
          shortmsg, longmsg = '???', '???'
      if message is None:
          message = shortmsg
      if explain is None:
          explain = longmsg
      self.log_error("code %d, message %s", code, message)
      self.send_response(code, message)
      self.send_header('Connection', 'close')
      body = None
      if (code >= 200 and
          code not in (HTTPStatus.NO_CONTENT,
                       HTTPStatus.RESET_CONTENT,
                       HTTPStatus.NOT_MODIFIED)):
          content = (self.error_message_format % {
              'code': code,
              'message': html.escape(message, quote=False),
              'explain': html.escape(explain, quote=False)
          })
          body = content.encode('UTF-8', 'replace')
          self.send_header("Content-Type", self.error_content_type)
          self.send_header('Content-Length', str(len(body)))
      self.end_headers()
      if self.command != 'HEAD' and body:
          self.wfile.write(body)
  \<close>
\<close>

definition send_error ::
  "pylib \<Rightarrow> http_status \<Rightarrow> string option \<Rightarrow> string option \<Rightarrow> handler \<Rightarrow> handler" where
  "send_error lib code message explain h =
     (let msg = (case message of None \<Rightarrow> phrase code | Some m \<Rightarrow> m);
          expl = (case explain of None \<Rightarrow> description code | Some x \<Rightarrow> x);
          h1 = log_error (''code '' @ str_nat (status_code code) @ '', message '' @ msg) h;
          h2 = send_response lib code (Some msg) h1;
          h3 = send_header ''Connection'' ''close'' h2;
          body = (if status_code code \<ge> 200 \<and> status_code code \<notin> {204, 205, 304}
                  then Some (utf8_encode
                    (error_message (status_code code) (html_escape msg) (html_escape expl)))
                  else None);
          h4 = (case body of
                  None \<Rightarrow> h3
                | Some b \<Rightarrow> send_header ''Content-Length'' (str_nat (length b))
                    (send_header ''Content-Type'' error_content_type h3));
          h5 = end_headers h4
      in case body of
           None \<Rightarrow> h5
         | Some b \<Rightarrow> if command h \<noteq> Some ''HEAD'' \<and> b \<noteq> [] then wfile_write b h5 else h5)"

text \<open>
  \<^verbatim>\<open>
  def translate_path(self, path):
      # abandon query parameters
      path = path.split('?',1)[0]
      path = path.split('#',1)[0]
      # Don't forget explicit trailing slash when normalizing. Issue17324
      trailing_slash = path.rstrip().endswith('/')
      try:
          path = urllib.parse.unquote(path, errors='surrogatepass')
      except UnicodeDecodeError:
          path = urllib.parse.unquote(path)
      path = posixpath.normpath(path)
      words = path.split('/')
      words = filter(None, words)
      path = self.directory
      for word in words:
          if os.path.dirname(word) or word in (os.curdir, os.pardir):
              # Ignore components that are not a simple file/directory name
              continue
          path = os.path.join(path, word)
      if trailing_slash:
          path += '/'
      return path
  \<close>
\<close>

text \<open>
  The \<^verbatim>\<open>try\<close> statement in the middle, with the first lines of \<^verbatim>\<open>urllib.parse.unquote\<close>:
  \<^verbatim>\<open>
  def unquote(string, encoding='utf-8', errors='replace'):
      if isinstance(string, bytes):
          return unquote_to_bytes(string).decode(encoding, errors)
      if '%' not in string:
          string.split
          return string
      ...
  \<close>
\<close>

definition unquote_path :: "pylib \<Rightarrow> string \<Rightarrow> string" where
  "unquote_path lib p =
     (if CHR ''%'' \<notin> set p then p
      else case unquote_surrogatepass lib p of None \<Rightarrow> unquote lib p | Some q \<Rightarrow> q)"

definition add_word :: "string \<Rightarrow> string \<Rightarrow> string" where
  "add_word p word =
     (if dirname word \<noteq> [] \<or> word = ''.'' \<or> word = ''..'' then p else path_join p word)"

definition translate_path :: "pylib \<Rightarrow> handler \<Rightarrow> string \<Rightarrow> string" where
  "translate_path lib h p =
     (let p1 = before_first CHR ''?'' p;
          p2 = before_first CHR ''#'' p1;
          trailing_slash = endswith (rstrip p2) ''/'';
          p3 = normpath (unquote_path lib p2);
          words = filter (\<lambda>w. w \<noteq> []) (split_on CHR ''/'' p3);
          p4 = foldl add_word (directory h) words
      in if trailing_slash then p4 @ ''/'' else p4)"

text \<open>
  \<^verbatim>\<open>"If-Modified-Since" in self.headers\<close> and \<^verbatim>\<open>self.headers["If-Modified-Since"]\<close>:
  the names of headers are compared in lower case, and the first match is the value.
\<close>

definition header_in :: "pylib \<Rightarrow> string \<Rightarrow> (string \<times> string) list \<Rightarrow> bool" where
  "header_in lib name hs = (lower lib name \<in> set (map (\<lambda>kv. lower lib (fst kv)) hs))"

definition header_get :: "pylib \<Rightarrow> string \<Rightarrow> (string \<times> string) list \<Rightarrow> string" where
  "header_get lib name hs =
     (case filter (\<lambda>kv. lower lib (fst kv) = lower lib name) hs of
        [] \<Rightarrow> []
      | kv # _ \<Rightarrow> snd kv)"

definition stat_call :: "string \<Rightarrow> handler \<Rightarrow> handler" where
  "stat_call p h = h\<lparr>events := events h @ [Stat p]\<rparr>"

text \<open>
  \<^verbatim>\<open>
  def list_directory(self, path):
      try:
          list = os.listdir(path)
      except OSError:
          self.send_error(
              HTTPStatus.NOT_FOUND,
              "No permission to list directory")
          return None
      list.sort(key=lambda a: a.lower())
      r = []
      try:
          displaypath = urllib.parse.unquote(self.path,
                                             errors='surrogatepass')
      except UnicodeDecodeError:
          displaypath = urllib.parse.unquote(self.path)
      displaypath = html.escape(displaypath, quote=False)
      enc = sys.getfilesystemencoding()
      title = f'Directory listing for {displaypath}'
      r.append('<!DOCTYPE HTML>')
      r.append('<html lang="en">')
      r.append('<head>')
      r.append(f'<meta charset="{enc}">')
      r.append(f'<title>{title}</title>\n</head>')
      r.append(f'<body>\n<h1>{title}</h1>')
      r.append('<hr>\n<ul>')
      for name in list:
          fullname = os.path.join(path, name)
          displayname = linkname = name
          # Append / for directories or @ for symbolic links
          if os.path.isdir(fullname):
              displayname = name + "/"
              linkname = name + "/"
          if os.path.islink(fullname):
              displayname = name + "@"
              # Note: a link to a directory displays with @ and links with /
          r.append('<li><a href="%s">%s</a></li>'
                  % (urllib.parse.quote(linkname,
                                        errors='surrogatepass'),
                     html.escape(displayname, quote=False)))
      r.append('</ul>\n<hr>\n</body>\n</html>\n')
      encoded = '\n'.join(r).encode(enc, 'surrogateescape')
      f = io.BytesIO()
      f.write(encoded)
      f.seek(0)
      self.send_response(HTTPStatus.OK)
      self.send_header("Content-type", "text/html; charset=%s" % enc)
      self.send_header("Content-Length", str(len(encoded)))
      self.end_headers()
      return f
  \<close>
  The file object a method returns is modelled by the bytes that can be read from it.
\<close>

definition list_item :: "kernel \<Rightarrow> pylib \<Rightarrow> string \<Rightarrow> string \<Rightarrow> string" where
  \<open>list_item k lib p name =
     (let fullname = path_join p name;
          linkname = (if isdir k fullname then name @ ''/'' else name);
          displayname = (if islink k fullname then name @ ''@''
                         else if isdir k fullname then name @ ''/'' else name)
      in ''<li><a href="'' @ quote lib linkname @ ''">'' @ html_escape displayname @ ''</a></li>'')\<close>

definition list_item_calls :: "string \<Rightarrow> string \<Rightarrow> event list" where
  "list_item_calls p name = [Stat (path_join p name), Lstat (path_join p name)]"

definition listing_page :: "kernel \<Rightarrow> pylib \<Rightarrow> handler \<Rightarrow> string \<Rightarrow> string list \<Rightarrow> string list" where
  \<open>listing_page k lib h p names =
     (let displaypath = html_escape (unquote_path lib (path h));
          enc = fs_encoding lib;
          title = ''Directory listing for '' @ displaypath
      in [''<!DOCTYPE HTML>'',
          ''<html lang="en">'',
          ''<head>'',
          ''<meta charset="'' @ enc @ ''">'',
          ''<title>'' @ title @ ''</title>'' @ LF @ ''</head>'',
          ''<body>'' @ LF @ ''<h1>'' @ title @ ''</h1>'',
          ''<hr>'' @ LF @ ''<ul>'']
         @ map (list_item k lib p) names
         @ [''</ul>'' @ LF @ ''<hr>'' @ LF @ ''</body>'' @ LF @ ''</html>'' @ LF])\<close>

definition fs_encode :: "pylib \<Rightarrow> string \<Rightarrow> string" where
  "fs_encode lib s = concat (map (fs_encode_char lib) s)"

definition list_directory ::
  "kernel \<Rightarrow> pylib \<Rightarrow> string \<Rightarrow> handler \<Rightarrow> string option outcome \<times> handler" where
  "list_directory k lib p h =
     (let h1 = h\<lparr>events := events h @ [Listdir p]\<rparr>
      in case listdir k p of
           Throws e \<Rightarrow>
             (if is_OSError e
              then (Returns None,
                    send_error lib NOT_FOUND (Some ''No permission to list directory'') None h1)
              else (Throws e, h1))
         | Returns names \<Rightarrow>
             (let sorted_names = sort_key (lower lib) names;
                  h2 = h1\<lparr>events := events h1 @ concat (map (list_item_calls p) sorted_names)\<rparr>;
                  encoded = fs_encode lib (join_with LF (listing_page k lib h p sorted_names));
                  h3 = send_response lib OK None h2;
                  h4 = send_header ''Content-type'' (''text/html; charset='' @ fs_encoding lib) h3;
                  h5 = send_header ''Content-Length'' (str_nat (length encoded)) h4
              in (Returns (Some encoded), end_headers h5)))"

text \<open>
  \<^verbatim>\<open>
  def send_head(self):
      path = self.translate_path(self.path)
      f = None
      if os.path.isdir(path):
          parts = urllib.parse.urlsplit(self.path)
          if not parts.path.endswith('/'):
              # redirect browser - doing basically what apache does
              self.send_response(HTTPStatus.MOVED_PERMANENTLY)
              new_parts = (parts[0], parts[1], parts[2] + '/',
                           parts[3], parts[4])
              new_url = urllib.parse.urlunsplit(new_parts)
              self.send_header("Location", new_url)
              self.send_header("Content-Length", "0")
              self.end_headers()
              return None
          for index in "index.html", "index.htm":
              index = os.path.join(path, index)
              if os.path.isfile(index):
                  path = index
                  break
          else:
              return self.list_directory(path)
      ctype = self.guess_type(path)
      if path.endswith("/"):
          self.send_error(HTTPStatus.NOT_FOUND, "File not found")
          return None
      try:
          f = open(path, 'rb')
      except OSError:
          self.send_error(HTTPStatus.NOT_FOUND, "File not found")
          return None
      try:
          fs = os.fstat(f.fileno())
          # Use browser cache if possible
          if ("If-Modified-Since" in self.headers
                  and "If-None-Match" not in self.headers):
              # compare If-Modified-Since and time of last file modification
              try:
                  ims = email.utils.parsedate_to_datetime(
                      self.headers["If-Modified-Since"])
              except (TypeError, IndexError, OverflowError, ValueError):
                  # ignore ill-formed values
                  pass
              else:
                  if ims.tzinfo is None:
                      ims = ims.replace(tzinfo=datetime.timezone.utc)
                  if ims.tzinfo is datetime.timezone.utc:
                      # compare to UTC datetime of last modification
                      last_modif = datetime.datetime.fromtimestamp(
                          fs.st_mtime, datetime.timezone.utc)
                      # remove microseconds, like in If-Modified-Since
                      last_modif = last_modif.replace(microsecond=0)
                      if last_modif <= ims:
                          self.send_response(HTTPStatus.NOT_MODIFIED)
                          self.end_headers()
                          f.close()
                          return None
          self.send_response(HTTPStatus.OK)
          self.send_header("Content-type", ctype)
          self.send_header("Content-Length", str(fs[6]))
          self.send_header("Last-Modified",
              self.date_time_string(fs.st_mtime))
          self.end_headers()
          return f
      except:
          f.close()
          raise
  \<close>
  The method in three parts: the redirection, the search for an index file, and the file.
\<close>

definition redirect :: "pylib \<Rightarrow> string \<times> string \<times> string \<times> string \<times> string \<Rightarrow> handler \<Rightarrow> handler" where
  "redirect lib parts h =
     (case parts of (p0, p1, p2, p3, p4) \<Rightarrow>
        end_headers
          (send_header ''Content-Length'' ''0''
             (send_header ''Location'' (urlunsplit lib (p0, p1, p2 @ ''/'', p3, p4))
                (send_response lib MOVED_PERMANENTLY None h))))"

definition find_index :: "kernel \<Rightarrow> string \<Rightarrow> handler \<Rightarrow> string option \<times> handler" where
  "find_index k p h =
     (let i1 = path_join p ''index.html''; h1 = stat_call i1 h
      in if isfile k i1 then (Some i1, h1)
         else let i2 = path_join p ''index.htm''; h2 = stat_call i2 h1
              in if isfile k i2 then (Some i2, h2) else (None, h2))"

definition send_file ::
  "kernel \<Rightarrow> pylib \<Rightarrow> string \<Rightarrow> handler \<Rightarrow> string option outcome \<times> handler" where
  "send_file k lib p h =
     (let ctype = guess_type lib p
      in if endswith p ''/''
         then (Returns None, send_error lib NOT_FOUND (Some ''File not found'') None h)
         else
           let h1 = h\<lparr>events := events h @ [Open_rb p]\<rparr>
           in case open_rb k p of
                Throws e \<Rightarrow>
                  (if is_OSError e
                   then (Returns None, send_error lib NOT_FOUND (Some ''File not found'') None h1)
                   else (Throws e, h1))
              | Returns f \<Rightarrow>
                  (if header_in lib ''If-Modified-Since'' (headers h1)
                      \<and> \<not> header_in lib ''If-None-Match'' (headers h1)
                      \<and> not_modified_since lib (header_get lib ''If-Modified-Since'' (headers h1))
                            (st_mtime f)
                   then (Returns None, end_headers (send_response lib NOT_MODIFIED None h1))
                   else
                     (Returns (Some (content f)),
                      end_headers
                        (send_header ''Last-Modified'' (date_time_string lib (st_mtime f))
                           (send_header ''Content-Length'' (str_nat (st_size f))
                              (send_header ''Content-type'' ctype
                                 (send_response lib OK None h1)))))))"

definition send_head :: "kernel \<Rightarrow> pylib \<Rightarrow> handler \<Rightarrow> string option outcome \<times> handler" where
  "send_head k lib h =
     (let p = translate_path lib h (path h); h1 = stat_call p h
      in if isdir k p then
           (case urlsplit lib (path h) of
              Throws e \<Rightarrow> (Throws e, h1)
            | Returns parts \<Rightarrow>
                if \<not> endswith (fst (snd (snd parts))) ''/''
                then (Returns None, redirect lib parts h1)
                else (case find_index k p h1 of
                        (Some i, h2) \<Rightarrow> send_file k lib i h2
                      | (None, h2) \<Rightarrow> list_directory k lib p h2))
         else send_file k lib p h1)"

text \<open>
  \<^verbatim>\<open>
  def do_GET(self):
      f = self.send_head()
      if f:
          try:
              self.copyfile(f, self.wfile)
          finally:
              f.close()

  def do_HEAD(self):
      f = self.send_head()
      if f:
          f.close()

  def copyfile(self, source, outputfile):
      shutil.copyfileobj(source, outputfile)
  \<close>
  and in \<^verbatim>\<open>shutil\<close>, where \<^verbatim>\<open>COPY_BUFSIZE\<close> is 64 * 1024:
  \<^verbatim>\<open>
  def copyfileobj(fsrc, fdst, length=0):
      if not length:
          length = COPY_BUFSIZE
      fsrc_read = fsrc.read
      fdst_write = fdst.write
      while True:
          buf = fsrc_read(length)
          if not buf:
              break
          fdst_write(buf)
  \<close>
\<close>

definition COPY_BUFSIZE :: nat where
  "COPY_BUFSIZE = 65536"

function copyfileobj :: "string \<Rightarrow> handler \<Rightarrow> handler" where
  "copyfileobj src h =
     (if take COPY_BUFSIZE src = [] then h
      else copyfileobj (drop COPY_BUFSIZE src) (wfile_write (take COPY_BUFSIZE src) h))"
  by pat_completeness auto
termination
  by (relation "measure (\<lambda>(src, h). length src)") (auto simp: COPY_BUFSIZE_def)

declare copyfileobj.simps [simp del]

definition copyfile :: "string \<Rightarrow> handler \<Rightarrow> handler" where
  "copyfile src h = copyfileobj src h"

definition do_GET :: "kernel \<Rightarrow> pylib \<Rightarrow> handler \<Rightarrow> completion \<times> handler" where
  "do_GET k lib h =
     (case send_head k lib h of
        (Throws e, h1) \<Rightarrow> (Raises e, h1)
      | (Returns None, h1) \<Rightarrow> (Normal, h1)
      | (Returns (Some f), h1) \<Rightarrow> (Normal, copyfile f h1))"

definition do_HEAD :: "kernel \<Rightarrow> pylib \<Rightarrow> handler \<Rightarrow> completion \<times> handler" where
  "do_HEAD k lib h =
     (case send_head k lib h of
        (Throws e, h1) \<Rightarrow> (Raises e, h1)
      | (Returns f, h1) \<Rightarrow> (Normal, h1))"

text \<open>
  \<^verbatim>\<open>
  def parse_request(self):
      self.command = None  # set in case of error on the first line
      self.request_version = version = self.default_request_version
      self.close_connection = True
      requestline = str(self.raw_requestline, 'iso-8859-1')
      requestline = requestline.rstrip('\r\n')
      self.requestline = requestline
      words = requestline.split()
      if len(words) == 0:
          return False

      if len(words) >= 3:  # Enough to determine protocol version
          version = words[-1]
          try:
              if not version.startswith('HTTP/'):
                  raise ValueError
              base_version_number = version.split('/', 1)[1]
              version_number = base_version_number.split(".")
              if len(version_number) != 2:
                  raise ValueError
              if any(not component.isdigit() for component in version_number):
                  raise ValueError("non digit in http version")
              if any(len(component) > 10 for component in version_number):
                  raise ValueError("unreasonable length http version")
              version_number = int(version_number[0]), int(version_number[1])
          except (ValueError, IndexError):
              self.send_error(
                  HTTPStatus.BAD_REQUEST,
                  "Bad request version (%r)" % version)
              return False
          if version_number >= (1, 1) and self.protocol_version >= "HTTP/1.1":
              self.close_connection = False
          if version_number >= (2, 0):
              self.send_error(
                  HTTPStatus.HTTP_VERSION_NOT_SUPPORTED,
                  "Invalid HTTP version (%s)" % base_version_number)
              return False
          self.request_version = version

      if not 2 <= len(words) <= 3:
          self.send_error(
              HTTPStatus.BAD_REQUEST,
              "Bad request syntax (%r)" % requestline)
          return False
      command, path = words[:2]
      if len(words) == 2:
          self.close_connection = True
          if command != 'GET':
              self.send_error(
                  HTTPStatus.BAD_REQUEST,
                  "Bad HTTP/0.9 request type (%r)" % command)
              return False
      self.command, self.path = command, path

      if self.path.startswith('//'):
          self.path = '/' + self.path.lstrip('/')  # Reduce to a single /

      # Examine the headers and look for a Connection directive.
      try:
          self.headers = http.client.parse_headers(self.rfile,
                                                   _class=self.MessageClass)
      except http.client.LineTooLong as err:
          self.send_error(
              HTTPStatus.REQUEST_HEADER_FIELDS_TOO_LARGE,
              "Line too long",
              str(err))
          return False
      except http.client.HTTPException as err:
          self.send_error(
              HTTPStatus.REQUEST_HEADER_FIELDS_TOO_LARGE,
              "Too many headers",
              str(err)
          )
          return False
      ...
      return True
  \<close>
  What follows the headers in the method looks at \<^verbatim>\<open>Connection\<close> to set
  \<^verbatim>\<open>close_connection\<close> and at \<^verbatim>\<open>Expect\<close>, which it honours only when
  \<^verbatim>\<open>protocol_version >= "HTTP/1.1"\<close>: neither changes anything here.
\<close>

definition parse_version :: "string \<Rightarrow> (nat \<times> nat) option" where
  "parse_version version =
     (if \<not> startswith version ''HTTP/'' then None
      else case split_on CHR ''.'' (after_first CHR ''/'' version) of
        [a, b] \<Rightarrow>
          (if \<not> str_isdigit a \<or> \<not> str_isdigit b then None
           else if length a > 10 \<or> length b > 10 then None
           else (case (py_int a, py_int b) of
                   (Some major, Some minor) \<Rightarrow> Some (major, minor)
                 | _ \<Rightarrow> None))
      | _ \<Rightarrow> None)"

definition parse_headers_step :: "pylib \<Rightarrow> handler \<Rightarrow> bool \<times> handler" where
  "parse_headers_step lib h =
     (case parsed_headers (request h) of
        LineTooLong err \<Rightarrow>
          (False, send_error lib REQUEST_HEADER_FIELDS_TOO_LARGE (Some ''Line too long'') (Some err) h)
      | HTTPException err \<Rightarrow>
          (False, send_error lib REQUEST_HEADER_FIELDS_TOO_LARGE (Some ''Too many headers'') (Some err) h)
      | Headers hs \<Rightarrow> (True, h\<lparr>headers := hs\<rparr>))"

definition parse_words :: "pylib \<Rightarrow> string list \<Rightarrow> handler \<Rightarrow> bool \<times> handler" where
  "parse_words lib words h =
     (if \<not> (2 \<le> length words \<and> length words \<le> 3)
      then (False, send_error lib BAD_REQUEST
              (Some (''Bad request syntax ('' @ repr lib (requestline h) @ '')'')) None h)
      else
        let cmd = words ! 0; p = words ! 1
        in if length words = 2 \<and> cmd \<noteq> ''GET''
           then (False, send_error lib BAD_REQUEST
                   (Some (''Bad HTTP/0.9 request type ('' @ repr lib cmd @ '')'')) None h)
           else parse_headers_step lib
                  (h\<lparr>command := Some cmd,
                     path := (if startswith p ''//'' then ''/'' @ lstrip_chars ''/'' p else p)\<rparr>))"

definition parse_request :: "pylib \<Rightarrow> handler \<Rightarrow> bool \<times> handler" where
  "parse_request lib h =
     (let h1 = h\<lparr>command := None, request_version := default_request_version,
                 requestline := rstrip_chars [CHR 0x0D, CHR 0x0A] (raw_requestline (request h))\<rparr>;
          words = split_ws (requestline h1)
      in if length words = 0 then (False, h1)
         else if length words \<ge> 3 then
           (let version = last words
            in case parse_version version of
                 None \<Rightarrow>
                   (False, send_error lib BAD_REQUEST
                      (Some (''Bad request version ('' @ repr lib version @ '')'')) None h1)
               | Some (major, minor) \<Rightarrow>
                   if major \<ge> 2
                   then (False, send_error lib HTTP_VERSION_NOT_SUPPORTED
                           (Some (''Invalid HTTP version ('' @ after_first CHR ''/'' version @ '')''))
                           None h1)
                   else parse_words lib words (h1\<lparr>request_version := version\<rparr>))
         else parse_words lib words h1)"

text \<open>
  \<^verbatim>\<open>
  def handle_one_request(self):
      try:
          self.raw_requestline = self.rfile.readline(65537)
          if len(self.raw_requestline) > 65536:
              self.requestline = ''
              self.request_version = ''
              self.command = ''
              self.send_error(HTTPStatus.REQUEST_URI_TOO_LONG)
              return
          if not self.raw_requestline:
              self.close_connection = True
              return
          if not self.parse_request():
              # An error code has been sent, just exit
              return
          mname = 'do_' + self.command
          if not hasattr(self, mname):
              self.send_error(
                  HTTPStatus.NOT_IMPLEMENTED,
                  "Unsupported method (%r)" % self.command)
              return
          method = getattr(self, mname)
          method()
          self.wfile.flush() #actually send the response if not already done.
      except TimeoutError as e:
          ...

  def handle(self):
      self.close_connection = True
      self.handle_one_request()
      while not self.close_connection:
          self.handle_one_request()
  \<close>
  The handler has the attributes \<^verbatim>\<open>do_GET\<close> and \<^verbatim>\<open>do_HEAD\<close> and no other whose name
  starts with \<^verbatim>\<open>do_\<close>. The connection has no timeout. \<^verbatim>\<open>'do_' + None\<close> would raise
  \<^verbatim>\<open>TypeError\<close>.
\<close>

definition handle_one_request :: "kernel \<Rightarrow> pylib \<Rightarrow> handler \<Rightarrow> completion \<times> handler" where
  "handle_one_request k lib h =
     (if length (raw_requestline (request h)) > 65536
      then (Normal, send_error lib REQUEST_URI_TOO_LONG None None
              (h\<lparr>requestline := [], request_version := [], command := Some []\<rparr>))
      else if raw_requestline (request h) = [] then (Normal, h)
      else case parse_request lib h of
             (False, h1) \<Rightarrow> (Normal, h1)
           | (True, h1) \<Rightarrow>
               (case command h1 of
                  None \<Rightarrow> (Raises OtherException, h1)
                | Some cmd \<Rightarrow>
                    if cmd = ''GET'' then do_GET k lib h1
                    else if cmd = ''HEAD'' then do_HEAD k lib h1
                    else (Normal, send_error lib NOT_IMPLEMENTED
                            (Some (''Unsupported method ('' @ repr lib cmd @ '')'')) None h1)))"

definition handle :: "kernel \<Rightarrow> pylib \<Rightarrow> handler \<Rightarrow> completion \<times> handler" where
  "handle k lib h = handle_one_request k lib h"

subsection \<open>The process\<close>

record process =
  kernel :: kernel
  cwd :: string
  listener :: "(string \<times> nat) option"
  trace :: "event list"

type_synonym step = "process \<Rightarrow> completion \<times> process"

definition and_then :: "step \<Rightarrow> step \<Rightarrow> step" where
  "and_then f g s = (case f s of (Normal, s') \<Rightarrow> g s' | (c, s') \<Rightarrow> (c, s'))"

definition emit :: "event \<Rightarrow> process \<Rightarrow> process" where
  "emit e s = s\<lparr>trace := trace s @ [e]\<rparr>"

text \<open>\<^verbatim>\<open>os.chdir(path)\<close>.\<close>

definition os_chdir :: "string \<Rightarrow> step" where
  "os_chdir p s =
     (case chdir_error (kernel s) p of
        Some e \<Rightarrow> (Raises e, s)
      | None \<Rightarrow> (Normal, emit (Chdir p) (s\<lparr>cwd := getcwd_in (kernel s) p\<rparr>)))"

text \<open>
  \<^verbatim>\<open>socket.bind(address)\<close> on a TCP socket that has neither \<^verbatim>\<open>SO_REUSEADDR\<close> nor
  \<^verbatim>\<open>SO_REUSEPORT\<close> set: it fails with \<^verbatim>\<open>EADDRINUSE\<close> when a live socket is bound to
  the port already.
\<close>

definition socket_bind :: "string \<times> nat \<Rightarrow> step" where
  "socket_bind address s =
     (if snd address \<in> snd ` set (bound (kernel s)) then (Raises (OSError EADDRINUSE), s)
      else case bind_error (kernel s) address of
        Some e \<Rightarrow> (Raises e, s)
      | None \<Rightarrow>
          (Normal, emit (Socket_bind (fst address) (snd address))
             (s\<lparr>kernel := (kernel s)\<lparr>bound := address # bound (kernel s)\<rparr>,
                listener := Some address\<rparr>)))"

definition socket_listen :: "nat \<Rightarrow> step" where
  "socket_listen backlog s = (Normal, emit (Socket_listen backlog) s)"

text \<open>\<^verbatim>\<open>socket.close()\<close> releases the address the socket was bound to.\<close>

definition socket_close :: "process \<Rightarrow> process" where
  "socket_close s =
     emit Socket_close
       (case listener s of
          None \<Rightarrow> s
        | Some a \<Rightarrow> s\<lparr>kernel := (kernel s)\<lparr>bound := remove1 a (bound (kernel s))\<rparr>,
                      listener := None\<rparr>)"

definition py_print :: "string \<Rightarrow> step" where
  "py_print line s = (Normal, emit (Stdout line) s)"

text \<open>
  An address a listening socket is bound to receives the connections for its port that
  arrive at its host address; the empty host is \<^verbatim>\<open>INADDR_ANY\<close>, every address of the
  machine.
\<close>

definition receives :: "string \<times> nat \<Rightarrow> string \<Rightarrow> nat \<Rightarrow> bool" where
  "receives address ip port = (snd address = port \<and> (fst address = [] \<or> fst address = ip))"

subsection \<open>socketserver.TCPServer\<close>

text \<open>
  \<^verbatim>\<open>
  request_queue_size = 5
  allow_reuse_address = False
  allow_reuse_port = False

  def __init__(self, server_address, RequestHandlerClass, bind_and_activate=True):
      BaseServer.__init__(self, server_address, RequestHandlerClass)
      self.socket = socket.socket(self.address_family, self.socket_type)
      if bind_and_activate:
          try:
              self.server_bind()
              self.server_activate()
          except:
              self.server_close()
              raise

  def server_bind(self):
      if self.allow_reuse_address and hasattr(socket, "SO_REUSEADDR"): ...
      if self.allow_reuse_port and hasattr(socket, "SO_REUSEPORT"): ...
      self.socket.bind(self.server_address)
      self.server_address = self.socket.getsockname()

  def server_activate(self):
      self.socket.listen(self.request_queue_size)

  def server_close(self):
      self.socket.close()
  \<close>
\<close>

definition request_queue_size :: nat where
  "request_queue_size = 5"

definition server_bind :: "string \<times> nat \<Rightarrow> step" where
  "server_bind server_address = socket_bind server_address"

definition server_activate :: step where
  "server_activate = socket_listen request_queue_size"

definition server_close :: "process \<Rightarrow> process" where
  "server_close = socket_close"

definition TCPServer_init :: "string \<times> nat \<Rightarrow> step" where
  "TCPServer_init server_address s =
     (case and_then (server_bind server_address) server_activate s of
        (Raises e, s') \<Rightarrow> (Raises e, server_close s')
      | r \<Rightarrow> r)"

text \<open>
  \<^verbatim>\<open>
  def serve_forever(self, poll_interval=0.5):
      ...
              while not self.__shutdown_request:
                  ready = selector.select(poll_interval)
                  if self.__shutdown_request:
                      break
                  if ready:
                      self._handle_request_noblock()
                  self.service_actions()
      ...

  def _handle_request_noblock(self):
      try:
          request, client_address = self.get_request()
      except OSError:
          return
      if self.verify_request(request, client_address):
          try:
              self.process_request(request, client_address)
          except Exception:
              self.handle_error(request, client_address)
              self.shutdown_request(request)
          except:
              self.shutdown_request(request)
              raise
      else:
          self.shutdown_request(request)

  def process_request(self, request, client_address):
      self.finish_request(request, client_address)
      self.shutdown_request(request)

  def finish_request(self, request, client_address):
      self.RequestHandlerClass(request, client_address, self)
  \<close>
  and the constructor of the handler, in \<^verbatim>\<open>SimpleHTTPRequestHandler\<close> and
  \<^verbatim>\<open>BaseRequestHandler\<close>:
  \<^verbatim>\<open>
  def __init__(self, *args, directory=None, **kwargs):
      if directory is None:
          directory = os.getcwd()
      self.directory = os.fspath(directory)
      super().__init__(*args, **kwargs)

  def __init__(self, request, client_address, server):
      ...
      self.setup()
      try:
          self.handle()
      finally:
          self.finish()
  \<close>
  \<^verbatim>\<open>serve_forever\<close> loops until \<^verbatim>\<open>shutdown()\<close> is called, which this program never does:
  it does not return. Its model takes the connections that arrive, in their order, serves
  each, and then blocks. \<^verbatim>\<open>handle_error\<close> prints the traceback of the exception to
  standard error.
\<close>

definition new_handler :: "process \<Rightarrow> request \<Rightarrow> handler" where
  "new_handler s req =
     \<lparr>directory = cwd s, request = req, requestline = [], command = None, path = [],
      request_version = [], headers = [], headers_buffer = [], events = [Getcwd]\<rparr>"

definition finish_request :: "pylib \<Rightarrow> process \<Rightarrow> request \<Rightarrow> completion \<times> handler" where
  "finish_request lib s req = handle (kernel s) lib (new_handler s req)"

text \<open>
  The handler's calls are answered by the operating system as it is when the connection
  is accepted, and what they do to the file system is there when the handler is done.
\<close>

definition handle_request_noblock :: "pylib \<Rightarrow> process \<Rightarrow> request \<Rightarrow> process" where
  "handle_request_noblock lib s req =
     (case finish_request lib s req of
        (Raises e, h) \<Rightarrow>
          s\<lparr>kernel := foldl fs_effect (kernel s) (events h),
            trace := trace s @ [Accept] @ events h @ [Stderr_traceback e, Shutdown_request]\<rparr>
      | (c, h) \<Rightarrow>
          s\<lparr>kernel := foldl fs_effect (kernel s) (events h),
            trace := trace s @ [Accept] @ events h @ [Shutdown_request]\<rparr>)"

definition serve_forever :: "pylib \<Rightarrow> request list \<Rightarrow> step" where
  "serve_forever lib conns s = (Blocks, foldl (handle_request_noblock lib) s conns)"

subsection \<open>The script\<close>

definition PORT :: nat where
  "PORT = 8000"

definition ROOT :: string where
  "ROOT = ''/mnt/c/Users/millz/vib34d-fix''"

text \<open>
  The two announcement lines, as UTF-8: each starts with an emoji (U+1F310 and U+1F4CB)
  and a space.
\<close>

definition serving_line :: string where
  "serving_line =
     [CHR 0xF0, CHR 0x9F, CHR 0x8C, CHR 0x90] @ '' Serving VIB34D system at http://localhost:''
       @ str_nat PORT"

definition live_test_line :: string where
  "live_test_line =
     [CHR 0xF0, CHR 0x9F, CHR 0x93, CHR 0x8B] @ '' Live test: http://localhost:''
       @ str_nat PORT @ ''/live-test.html''"

text \<open>
  \<^verbatim>\<open>with TCPServer(...) as httpd: body\<close>: the constructor runs first; when the body ends,
  normally or by raising, \<^verbatim>\<open>__exit__\<close> calls \<^verbatim>\<open>server_close()\<close>.
\<close>

definition with_TCPServer :: "string \<times> nat \<Rightarrow> step \<Rightarrow> step" where
  "with_TCPServer server_address body s =
     (case TCPServer_init server_address s of
        (Normal, s1) \<Rightarrow>
          (case body s1 of
             (Blocks, s2) \<Rightarrow> (Blocks, s2)
           | (c, s2) \<Rightarrow> (c, server_close s2))
      | r \<Rightarrow> r)"

definition script :: "pylib \<Rightarrow> request list \<Rightarrow> step" where
  "script lib conns =
     and_then (os_chdir ROOT)
       (with_TCPServer ([], PORT)
          (and_then (py_print serving_line)
             (and_then (py_print live_test_line) (serve_forever lib conns))))"

text \<open>
  Running the script as a process: an exception that nothing catches is printed to
  standard error as a traceback and the interpreter exits with status 1; a script that
  runs to its end exits with status 0; one that blocks stays alive.
\<close>

datatype run = Exited nat process | Running process

definition start :: "kernel \<Rightarrow> process" where
  "start k = \<lparr>kernel = k, cwd = [], listener = None, trace = []\<rparr>"

definition run_script :: "kernel \<Rightarrow> pylib \<Rightarrow> request list \<Rightarrow> run" where
  "run_script k lib conns =
     (case script lib conns (start k) of
        (Normal, s) \<Rightarrow> Exited 0 s
      | (Raises e, s) \<Rightarrow> Exited 1 (emit (Stderr_traceback e) s)
      | (Blocks, s) \<Rightarrow> Running s)"

subsection \<open>What the properties speak of\<close>

text \<open>The byte strings written to the connection, in order.\<close>

fun sent :: "event list \<Rightarrow> string list" where
  "sent [] = []"
| "sent (Send b # es) = b # sent es"
| "sent (e # es) = sent es"

text \<open>The paths of the files opened and of the directories listed, in order.\<close>

fun reads :: "event list \<Rightarrow> string list" where
  "reads [] = []"
| "reads (Open_rb p # es) = p # reads es"
| "reads (Listdir p # es) = p # reads es"
| "reads (e # es) = reads es"

text \<open>The calls among them that change the file system.\<close>

definition file_changes :: "event list \<Rightarrow> event list" where
  "file_changes es = filter changes_files es"

text \<open>The two header lines the script adds, as they stand in a header block.\<close>

definition COEP_line :: string where
  "COEP_line = ''Cross-Origin-Embedder-Policy: require-corp'' @ CRLF"

definition COOP_line :: string where
  "COOP_line = ''Cross-Origin-Opener-Policy: same-origin'' @ CRLF"




text \<open>The status line of a response, and the body \<^verbatim>\<open>send_error\<close> makes.\<close>

definition status_line :: "http_status \<Rightarrow> string option \<Rightarrow> string" where
  "status_line code message =
     protocol_version @ '' '' @ str_nat (status_code code) @ '' ''
       @ (case message of None \<Rightarrow> phrase code | Some m \<Rightarrow> m) @ CRLF"

definition error_body :: "http_status \<Rightarrow> string option \<Rightarrow> string option \<Rightarrow> string" where
  "error_body code message explain =
     utf8_encode (error_message (status_code code)
       (html_escape (case message of None \<Rightarrow> phrase code | Some m \<Rightarrow> m))
       (html_escape (case explain of None \<Rightarrow> description code | Some x \<Rightarrow> x)))"



text \<open>
  A response carries the two headers when the first thing written to the connection is
  a header block that starts with a status line and ends with the two header lines and
  the empty line.
\<close>

definition isolated :: "string list \<Rightarrow> bool" where
  "isolated writes =
     (\<exists>lines rest. writes = concat (lines @ [COEP_line, COOP_line, CRLF]) # rest
        \<and> lines \<noteq> [] \<and> prefix ''HTTP/1.0 '' (hd lines))"

text \<open>
  The words of a request line as \<^verbatim>\<open>parse_request\<close> splits it, and the requests that
  \<^verbatim>\<open>handle_one_request\<close> gives a \<^verbatim>\<open>request_version\<close> other than \<^verbatim>\<open>HTTP/0.9\<close>: the
  line is longer than 65536 bytes (the version is then the empty string), or it has three
  words or more and the last of them is a version \<^verbatim>\<open>HTTP/major.minor\<close> with a major
  number below 2, and is not \<^verbatim>\<open>HTTP/0.9\<close> itself.
\<close>

definition request_words :: "request \<Rightarrow> string list" where
  "request_words req = split_ws (rstrip_chars CRLF (raw_requestline req))"

definition versioned :: "request \<Rightarrow> bool" where
  "versioned req =
     (65536 < length (raw_requestline req) \<or>
      (3 \<le> length (request_words req) \<and> last (request_words req) \<noteq> ''HTTP/0.9'' \<and>
       (case parse_version (last (request_words req)) of
          Some (major, minor) \<Rightarrow> major < 2
        | None \<Rightarrow> False)))"

text \<open>
  The states of a handler on its way to an answer: \<open>fresh\<close>, nothing written and
  nothing buffered; \<open>started\<close>, nothing written and, unless the request is an HTTP/0.9
  one, a status line at the head of the buffer; \<open>answered\<close>, the two headers are out
  unless the request is an HTTP/0.9 one; \<open>ok\<close>, answered or nothing written at all.
\<close>

definition fresh :: "handler \<Rightarrow> bool" where
  "fresh h = (sent (events h) = [] \<and> headers_buffer h = [])"

definition started :: "handler \<Rightarrow> bool" where
  "started h = (sent (events h) = [] \<and>
     (request_version h \<noteq> ''HTTP/0.9'' \<longrightarrow>
        headers_buffer h \<noteq> [] \<and> prefix ''HTTP/1.0 '' (hd (headers_buffer h))))"

definition answered :: "handler \<Rightarrow> bool" where
  "answered h = (request_version h \<noteq> ''HTTP/0.9'' \<longrightarrow> isolated (sent (events h)))"

definition ok :: "handler \<Rightarrow> bool" where
  "ok h = (request_version h \<noteq> ''HTTP/0.9'' \<longrightarrow>
            sent (events h) = [] \<or> isolated (sent (events h)))"

text \<open>
  What \<^verbatim>\<open>send_head\<close> leaves behind: an answer when it returns, nothing yet when it
  raises. What \<^verbatim>\<open>parse_request\<close> leaves behind: nothing yet when it accepts the request,
  an answer or nothing at all when it does not.
\<close>

definition left :: "string option outcome \<times> handler \<Rightarrow> bool" where
  "left r = (case fst r of Returns f \<Rightarrow> answered (snd r) | Throws e \<Rightarrow> fresh (snd r))"

definition parsed_ok :: "bool \<times> handler \<Rightarrow> bool" where
  "parsed_ok r = (if fst r then fresh (snd r) else ok (snd r))"

text \<open>
  The path \<^verbatim>\<open>parse_request\<close> stores for the target of a request line: leading slashes
  are reduced to one when there are two or more.
\<close>

definition request_path :: "string \<Rightarrow> string" where
  "request_path target =
     (if startswith target ''//'' then ''/'' @ lstrip_chars ''/'' target else target)"

text \<open>
  The handler once \<^verbatim>\<open>parse_request\<close> has accepted a request line of three words and
  the headers after it.
\<close>

definition parsed_handler ::
  "process \<Rightarrow> request \<Rightarrow> string \<Rightarrow> string \<Rightarrow> string \<Rightarrow> (string \<times> string) list \<Rightarrow> handler" where
  "parsed_handler s req cmd target version hs =
     \<lparr>directory = cwd s, request = req, requestline = cmd @ '' '' @ target @ '' '' @ version,
      command = Some cmd, path = request_path target, request_version = version,
      headers = hs, headers_buffer = [], events = [Getcwd]\<rparr>"

subsection \<open>Concrete instances\<close>

text \<open>A library whose parameters are as simple as can be, for running the model.\<close>

definition lib0 :: pylib where
  "lib0 = \<lparr>unquote_surrogatepass = (\<lambda>s. Some s), unquote = (\<lambda>s. s), quote = (\<lambda>s. s),
           urlsplit = (\<lambda>s. Returns ([], [], s, [], [])),
           urlunsplit = (\<lambda>parts. fst (snd (snd parts))),
           lower = (\<lambda>s. s), repr = (\<lambda>s. [CHR 0x27] @ s @ [CHR 0x27]),
           guess_type = (\<lambda>p. ''text/html''),
           formatdate = (\<lambda>t. ''Thu, 01 Jan 1970 00:00:00 GMT''),
           sys_version = ''Python/3.11.10'', fs_encoding = ''utf-8'',
           fs_encode_char = utf8_char, not_modified_since = (\<lambda>v t. False)\<rparr>"

text \<open>A machine on which the root directory does not exist.\<close>

definition kernel0 :: kernel where
  "kernel0 = \<lparr>chdir_error = (\<lambda>p. Some (OSError ENOENT)),
              getcwd_in = (\<lambda>p. p), bind_error = (\<lambda>a. None),
              isdir = (\<lambda>p. False), isfile = (\<lambda>p. False), islink = (\<lambda>p. False),
              open_rb = (\<lambda>p. Throws (OSError ENOENT)),
              listdir = (\<lambda>p. Throws (OSError ENOENT)), bound = []\<rparr>"

text \<open>
  A machine on which the root directory holds the file \<^verbatim>\<open>live-test.html\<close> and the
  directory \<^verbatim>\<open>assets\<close> with the files \<^verbatim>\<open>a.js\<close> and \<^verbatim>\<open>b&w.png\<close>, and no port is taken.
\<close>

definition live_test_file :: py_file where
  "live_test_file = \<lparr>content = ''<html>live</html>'', st_size = 17, st_mtime = 1000\<rparr>"

definition kernel1 :: kernel where
  "kernel1 = \<lparr>chdir_error = (\<lambda>p. if p = ROOT then None else Some (OSError ENOENT)),
              getcwd_in = (\<lambda>p. p), bind_error = (\<lambda>a. None),
              isdir = (\<lambda>p. p \<in> set [ROOT, ROOT @ ''/'', ROOT @ ''/assets'', ROOT @ ''/assets/'']),
              isfile = (\<lambda>p. p = ROOT @ ''/live-test.html''),
              islink = (\<lambda>p. False),
              open_rb = (\<lambda>p. if p = ROOT @ ''/live-test.html'' then Returns live_test_file
                              else Throws (OSError ENOENT)),
              listdir = (\<lambda>p. if p \<in> set [ROOT @ ''/assets'', ROOT @ ''/assets/'']
                              then Returns [''b&w.png'', ''a.js'']
                              else Throws (OSError ENOENT)),
              bound = []\<rparr>"

text \<open>The same machine with port 8000 taken by a socket bound to the loopback address.\<close>

definition kernel2 :: kernel where
  "kernel2 = kernel1\<lparr>bound := [(''127.0.0.1'', 8000)]\<rparr>"

definition get_request :: "string \<Rightarrow> request" where
  "get_request line = \<lparr>raw_requestline = line @ CRLF, parsed_headers = Headers [], now = 2000\<rparr>"

text \<open>A process that is serving, on that machine, and a request that tries to climb out.\<close>

definition process1 :: process where
  "process1 = \<lparr>kernel = kernel1, cwd = ROOT, listener = Some ([], PORT), trace = []\<rparr>"


text \<open>
  The machine \<open>kernel1\<close> with the file \<^verbatim>\<open>/etc/passwd\<close>, which is outside the root
  directory.
\<close>

definition passwd_file :: py_file where
  "passwd_file = \<lparr>content = ''root:x:0:0:root:/root:/bin/sh'', st_size = 29, st_mtime = 500\<rparr>"

definition kernel3 :: kernel where
  "kernel3 = kernel1\<lparr>isdir := (\<lambda>p. isdir kernel1 p \<or> p = ''/etc''),
                     isfile := (\<lambda>p. isfile kernel1 p \<or> p = ''/etc/passwd''),
                     open_rb := (\<lambda>p. if p = ''/etc/passwd'' then Returns passwd_file
                                     else open_rb kernel1 p)\<rparr>"

text \<open>
  That machine with a symbolic link \<^verbatim>\<open>etc\<close> in the root directory that points to
  \<^verbatim>\<open>/etc\<close>: the operating system follows the link, so opening \<^verbatim>\<open>etc/passwd\<close> under
  the root opens \<^verbatim>\<open>/etc/passwd\<close>.
\<close>

definition kernel4 :: kernel where
  "kernel4 = kernel3\<lparr>isdir := (\<lambda>p. isdir kernel3 p \<or> p = ROOT @ ''/etc''),
                     islink := (\<lambda>p. p = ROOT @ ''/etc''),
                     isfile := (\<lambda>p. isfile kernel3 p \<or> p = ROOT @ ''/etc/passwd''),
                     open_rb := (\<lambda>p. if p = ROOT @ ''/etc/passwd'' then open_rb kernel3 ''/etc/passwd''
                                     else open_rb kernel3 p)\<rparr>"

text \<open>
  The machine \<open>kernel1\<close> with directories that the process has no permission to list.
\<close>

definition kernel5 :: kernel where
  "kernel5 = kernel1\<lparr>listdir := (\<lambda>p. Throws (OSError EACCES))\<rparr>"

text \<open>Processes that are serving on these machines.\<close>

definition process3 :: process where
  "process3 = process1\<lparr>kernel := kernel3\<rparr>"

definition process4 :: process where
  "process4 = process1\<lparr>kernel := kernel4\<rparr>"

definition process5 :: process where
  "process5 = process1\<lparr>kernel := kernel5\<rparr>"



section \<open>Properties\<close>

subsection \<open>Paths\<close>







lemma endswith_slash: "endswith p ''/'' \<longleftrightarrow> p \<noteq> [] \<and> last p = CHR ''/''"
proof
  assume "endswith p ''/''"
  then show "p \<noteq> [] \<and> last p = CHR ''/''"
    by (auto simp: endswith_def suffix_def)
next
  assume "p \<noteq> [] \<and> last p = CHR ''/''"
  then have "p = butlast p @ ''/''"
    by (metis append_butlast_last_id)
  then show "endswith p ''/''"
    unfolding endswith_def suffix_def by blast
qed





subsection \<open>What each method does to the handler\<close>

lemma sent_append [simp]: "sent (xs @ ys) = sent xs @ sent ys"
  by (induction xs rule: sent.induct) auto

lemma log_message_fields [simp]:
  "events (log_message m h) = events h @ [Log_message m]"
  "headers_buffer (log_message m h) = headers_buffer h"
  "request_version (log_message m h) = request_version h"
  "command (log_message m h) = command h"
  "request (log_message m h) = request h"
  "requestline (log_message m h) = requestline h"
  "path (log_message m h) = path h"
  "directory (log_message m h) = directory h"
  "headers (log_message m h) = headers h"
  by (simp_all add: log_message_def)

lemma wfile_write_fields [simp]:
  "events (wfile_write b h) = events h @ [Send b]"
  "headers_buffer (wfile_write b h) = headers_buffer h"
  "request_version (wfile_write b h) = request_version h"
  "command (wfile_write b h) = command h"
  "request (wfile_write b h) = request h"
  "requestline (wfile_write b h) = requestline h"
  "path (wfile_write b h) = path h"
  "directory (wfile_write b h) = directory h"
  "headers (wfile_write b h) = headers h"
  by (simp_all add: wfile_write_def)

lemma stat_call_fields [simp]:
  "events (stat_call p h) = events h @ [Stat p]"
  "headers_buffer (stat_call p h) = headers_buffer h"
  "request_version (stat_call p h) = request_version h"
  "command (stat_call p h) = command h"
  "request (stat_call p h) = request h"
  "requestline (stat_call p h) = requestline h"
  "path (stat_call p h) = path h"
  "directory (stat_call p h) = directory h"
  "headers (stat_call p h) = headers h"
  by (simp_all add: stat_call_def)

lemma send_header_fields [simp]:
  "events (send_header kw v h) = events h"
  "headers_buffer (send_header kw v h) =
     (if request_version h \<noteq> ''HTTP/0.9'' then headers_buffer h @ [kw @ '': '' @ v @ CRLF]
      else headers_buffer h)"
  "request_version (send_header kw v h) = request_version h"
  "command (send_header kw v h) = command h"
  "request (send_header kw v h) = request h"
  "requestline (send_header kw v h) = requestline h"
  "path (send_header kw v h) = path h"
  "directory (send_header kw v h) = directory h"
  "headers (send_header kw v h) = headers h"
  by (simp_all add: send_header_def)

lemma send_response_fields [simp]:
  "events (send_response lib code m h) =
     events h @ [Log_message ([CHR 0x22] @ requestline h @ [CHR 0x22] @ '' '' @ str_nat (status_code code) @ '' -'')]"
  "headers_buffer (send_response lib code m h) =
     (if request_version h \<noteq> ''HTTP/0.9''
      then headers_buffer h @ [status_line code m,
             ''Server: '' @ version_string lib @ CRLF,
             ''Date: '' @ date_time_string lib (now (request h)) @ CRLF]
      else headers_buffer h)"
  "request_version (send_response lib code m h) = request_version h"
  "command (send_response lib code m h) = command h"
  "request (send_response lib code m h) = request h"
  "requestline (send_response lib code m h) = requestline h"
  "path (send_response lib code m h) = path h"
  "directory (send_response lib code m h) = directory h"
  "headers (send_response lib code m h) = headers h"
  by (simp_all add: send_response_def send_response_only_def log_request_def status_line_def)

lemma end_headers_fields [simp]:
  "events (end_headers h) =
     (if request_version h \<noteq> ''HTTP/0.9''
      then events h @ [Send (concat (headers_buffer h @ [COEP_line, COOP_line, CRLF]))]
      else events h)"
  "headers_buffer (end_headers h) =
     (if request_version h \<noteq> ''HTTP/0.9'' then [] else headers_buffer h)"
  "request_version (end_headers h) = request_version h"
  "command (end_headers h) = command h"
  "request (end_headers h) = request h"
  "requestline (end_headers h) = requestline h"
  "path (end_headers h) = path h"
  "directory (end_headers h) = directory h"
  "headers (end_headers h) = headers h"
  by (simp_all add: end_headers_def base_end_headers_def flush_headers_def COEP_line_def
      COOP_line_def)

lemma error_body_nonempty: "error_body code m e \<noteq> []"
  by (simp add: error_body_def error_message_def utf8_encode_def)

lemma send_error_fields:
  "request_version (send_error lib code m e h) = request_version h"
  "command (send_error lib code m e h) = command h"
  "directory (send_error lib code m e h) = directory h"
  by (simp_all add: send_error_def Let_def log_error_def split: option.splits)

lemma send_error_sent:
  assumes "request_version h \<noteq> ''HTTP/0.9''" "code \<noteq> NOT_MODIFIED"
  shows "sent (events (send_error lib code m e h)) =
     sent (events h) @
     [concat (headers_buffer h @
        [status_line code (Some (case m of None \<Rightarrow> phrase code | Some x \<Rightarrow> x)),
         ''Server: '' @ version_string lib @ CRLF,
         ''Date: '' @ date_time_string lib (now (request h)) @ CRLF,
         ''Connection: close'' @ CRLF,
         ''Content-Type: '' @ error_content_type @ CRLF,
         ''Content-Length: '' @ str_nat (length (error_body code m e)) @ CRLF,
         COEP_line, COOP_line, CRLF])]
     @ (if command h \<noteq> Some ''HEAD'' then [error_body code m e] else [])"
proof -
  have c: "status_code code \<ge> 200 \<and> status_code code \<notin> {204, 205, 304}"
    using assms(2) by (cases code) simp_all
  show ?thesis
    using assms(1) c error_body_nonempty [of code m e]
    by (simp add: send_error_def Let_def log_error_def error_body_def split: option.splits)
qed


lemma reads_append [simp]: "reads (xs @ ys) = reads xs @ reads ys"
  by (induction xs rule: reads.induct) auto

lemma send_error_reads [simp]:
  "reads (events (send_error lib code m e h)) = reads (events h)"
  by (simp add: send_error_def Let_def log_error_def split: option.splits)

lemma copyfileobj_all:
  "reads (events (copyfileobj src h)) = reads (events h)
   \<and> concat (sent (events (copyfileobj src h))) = concat (sent (events h)) @ src
   \<and> directory (copyfileobj src h) = directory h
   \<and> request_version (copyfileobj src h) = request_version h"
proof (induction src h rule: copyfileobj.induct)
  case (1 src h)
  show ?case
  proof (cases "take COPY_BUFSIZE src = []")
    case True
    then have "src = []" by (simp add: COPY_BUFSIZE_def)
    then show ?thesis by (subst (1 2 3 4) copyfileobj.simps) simp
  next
    case False
    from "1" [OF False] False show ?thesis
      by (subst (1 2 3 4) copyfileobj.simps) (simp add: append_take_drop_id)
  qed
qed

lemma copyfileobj_fields [simp]:
  "reads (events (copyfileobj src h)) = reads (events h)"
  "concat (sent (events (copyfileobj src h))) = concat (sent (events h)) @ src"
  "directory (copyfileobj src h) = directory h"
  "request_version (copyfileobj src h) = request_version h"
  using copyfileobj_all [of src h] by simp_all

lemma list_item_calls_reads [simp]:
  "reads (concat (map (list_item_calls p) names)) = []"
  by (induction names) (simp_all add: list_item_calls_def)




lemma redirect_reads [simp]:
  "reads (events (redirect lib parts h)) = reads (events h)"
  "directory (redirect lib parts h) = directory h"
  by (simp_all add: redirect_def split: prod.splits)







subsection \<open>No call of a handler changes the file system\<close>

lemma file_changes_append [simp]: "file_changes (xs @ ys) = file_changes xs @ file_changes ys"
  by (simp add: file_changes_def)

lemma file_changes_Nil [simp]: "file_changes [] = []"
  by (simp add: file_changes_def)

lemma file_changes_Cons [simp]:
  "file_changes (e # es) = (if changes_files e then e # file_changes es else file_changes es)"
  by (simp add: file_changes_def)


lemma fs_effect_none: "\<not> changes_files e \<Longrightarrow> fs_effect k e = k"
  by (cases e) simp_all

lemma no_changes_no_effect: "file_changes es = [] \<Longrightarrow> foldl fs_effect k es = k"
  by (induction es arbitrary: k) (auto simp add: fs_effect_none split: if_splits)

lemma send_error_changes [simp]:
  "file_changes (events (send_error lib code m e h)) = file_changes (events h)"
  by (simp add: send_error_def Let_def log_error_def split: option.splits)

lemma copyfileobj_changes [simp]:
  "file_changes (events (copyfileobj src h)) = file_changes (events h)"
proof (induction src h rule: copyfileobj.induct)
  case (1 src h)
  show ?case
  proof (cases "take COPY_BUFSIZE src = []")
    case True
    then show ?thesis by (subst copyfileobj.simps) simp
  next
    case False
    from "1" [OF False] False show ?thesis
      by (subst copyfileobj.simps) simp
  qed
qed

lemma list_item_calls_changes [simp]:
  "file_changes (concat (map (list_item_calls p) names)) = []"
  by (induction names) (simp_all add: list_item_calls_def)

lemma list_directory_changes:
  "file_changes (events (snd (list_directory k lib p h))) = file_changes (events h)"
  by (simp add: list_directory_def Let_def split: outcome.splits)

lemma send_file_changes:
  "file_changes (events (snd (send_file k lib p h))) = file_changes (events h)"
  by (simp add: send_file_def Let_def split: outcome.splits)

lemma find_index_changes:
  "file_changes (events (snd (find_index k p h))) = file_changes (events h)"
  by (simp add: find_index_def Let_def)

lemma redirect_changes [simp]:
  "file_changes (events (redirect lib parts h)) = file_changes (events h)"
  by (simp add: redirect_def split: prod.splits)

lemma send_head_changes:
  "file_changes (events (snd (send_head k lib h))) = file_changes (events h)"
proof -
  let ?p = "translate_path lib h (path h)"
  obtain r h2 where f: "find_index k ?p (stat_call ?p h) = (r, h2)"
    by (cases "find_index k ?p (stat_call ?p h)")
  from f find_index_changes [of k ?p "stat_call ?p h"]
  have "file_changes (events h2) = file_changes (events h)" by simp
  with f show ?thesis
    by (simp add: send_head_def Let_def send_file_changes list_directory_changes
        split: outcome.splits option.splits)
qed

lemma parse_request_changes:
  "file_changes (events (snd (parse_request lib h))) = file_changes (events h)"
  by (simp add: parse_request_def parse_words_def parse_headers_step_def Let_def
      split: option.splits header_parse.splits prod.splits)

lemma do_GET_changes:
  "file_changes (events (snd (do_GET k lib h))) = file_changes (events h)"
  using send_head_changes [of k lib h]
  by (auto simp add: do_GET_def copyfile_def split: prod.splits outcome.splits option.splits)

lemma do_HEAD_changes:
  "file_changes (events (snd (do_HEAD k lib h))) = file_changes (events h)"
  using send_head_changes [of k lib h]
  by (auto simp add: do_HEAD_def split: prod.splits outcome.splits)

lemma handle_changes:
  "file_changes (events (snd (handle k lib h))) = file_changes (events h)"
proof -
  obtain b h1 where p: "parse_request lib h = (b, h1)"
    by (cases "parse_request lib h")
  from p parse_request_changes [of lib h]
  have r: "file_changes (events h1) = file_changes (events h)"
    by simp
  from do_GET_changes [of k lib h1] do_HEAD_changes [of k lib h1] r p
  show ?thesis
    by (cases b) (auto simp add: handle_def handle_one_request_def split: option.splits)
qed

lemma finish_request_changes:
  "file_changes (events (snd (finish_request lib s req))) = []"
  by (simp add: finish_request_def handle_changes new_handler_def)


subsection \<open>Starting up\<close>

lemma str_nat_PORT: "str_nat PORT = ''8000''"
  by (simp add: PORT_def str_nat.simps digit_char_def)

lemmas startup_defs = run_script_def script_def and_then_def os_chdir_def start_def emit_def
  with_TCPServer_def TCPServer_init_def server_bind_def server_activate_def server_close_def
  socket_bind_def socket_listen_def socket_close_def py_print_def serve_forever_def

text \<open>Serving connections changes nothing of the process but its trace, which grows.\<close>

lemma serving_frame:
  "kernel (foldl (handle_request_noblock lib) s conns) = kernel s
   \<and> cwd (foldl (handle_request_noblock lib) s conns) = cwd s
   \<and> listener (foldl (handle_request_noblock lib) s conns) = listener s
   \<and> (\<exists>served. trace (foldl (handle_request_noblock lib) s conns) = trace s @ served)"
proof (induction conns arbitrary: s)
  case Nil
  then show ?case by simp
next
  case (Cons req conns)
  have a: "kernel (handle_request_noblock lib s req) = kernel s
     \<and> cwd (handle_request_noblock lib s req) = cwd s
     \<and> listener (handle_request_noblock lib s req) = listener s
     \<and> (\<exists>ev. trace (handle_request_noblock lib s req) = trace s @ ev)"
    using finish_request_changes [of lib s req]
    by (auto simp add: handle_request_noblock_def no_changes_no_effect
        split: prod.splits completion.splits)
  from Cons.IH [of "handle_request_noblock lib s req"] a show ?case
    by auto
qed


text \<open>The three ways a run of the script can go.\<close>

lemma run_cases:
  "run_script k lib conns =
     (case chdir_error k ROOT of
        Some e \<Rightarrow> Exited 1 ((start k)\<lparr>trace := [Stderr_traceback e]\<rparr>)
      | None \<Rightarrow>
         (if PORT \<in> snd ` set (bound k) \<or> bind_error k ([], PORT) \<noteq> None
          then Exited 1 ((start k)\<lparr>cwd := getcwd_in k ROOT,
                 trace := [Chdir ROOT, Socket_close,
                   Stderr_traceback (if PORT \<in> snd ` set (bound k) then OSError EADDRINUSE
                                     else the (bind_error k ([], PORT)))]\<rparr>)
          else Running (foldl (handle_request_noblock lib)
                 \<lparr>kernel = k\<lparr>bound := ([], PORT) # bound k\<rparr>, cwd = getcwd_in k ROOT,
                  listener = Some ([], PORT),
                  trace = [Chdir ROOT, Socket_bind [] PORT, Socket_listen request_queue_size,
                           Stdout serving_line, Stdout live_test_line]\<rparr> conns)))"
  by (auto simp add: startup_defs split: option.splits)

lemma kernel1_runs: "\<exists>s. run_script kernel1 lib0 [] = Running s"
  by (simp add: run_cases kernel1_def PORT_def)

text \<open>
  C9. If \<^verbatim>\<open>os.chdir\<close> raises on the root directory (it raises \<^verbatim>\<open>FileNotFoundError\<close>,
  an \<^verbatim>\<open>OSError\<close> with errno \<^verbatim>\<open>ENOENT\<close>, when the directory does not exist), nothing
  catches the exception: the process exits with status 1, and all it has done by then is
  to print the traceback. It has bound no socket and printed neither announcement line.
\<close>

theorem missing_root_is_fatal:
  assumes "chdir_error k ROOT = Some e"
  shows "\<exists>s. run_script k lib conns = Exited 1 s \<and> trace s = [Stderr_traceback e]
           \<and> listener s = None \<and> bound (kernel s) = bound k"
  using assms
  by (simp add: run_script_def script_def and_then_def os_chdir_def start_def emit_def)

theorem missing_root_is_fatal_witness:
  "chdir_error kernel0 ROOT = Some (OSError ENOENT)
   \<and> (\<exists>s. run_script kernel0 lib0 [] = Exited 1 s
           \<and> trace s = [Stderr_traceback (OSError ENOENT)]
           \<and> listener s = None \<and> bound (kernel s) = bound kernel0)"
proof -
  have h: "chdir_error kernel0 ROOT = Some (OSError ENOENT)"
    by (simp add: kernel0_def)
  show ?thesis
    using h missing_root_is_fatal [OF h, of lib0 "[]"] by simp
qed

text \<open>
  C5. When the script is running, the first things it has done are, in this order: change
  into the root directory, bind the socket to port 8000, listen, print the line with the
  base URL, print the line with the URL of \<^verbatim>\<open>live-test.html\<close>. Whatever it has done for
  connections (each starts with \<open>Accept\<close>) comes after these. And while it runs, the
  address is bound: a second run of the script on the same machine ends with the
  \<^verbatim>\<open>OSError\<close> of errno \<^verbatim>\<open>EADDRINUSE\<close> uncaught and exit status 1, having printed
  neither line.
\<close>

theorem startup_order:
  assumes "run_script k lib conns = Running s"
  shows "(\<exists>served. trace s =
            [Chdir ROOT, Socket_bind [] PORT, Socket_listen request_queue_size,
             Stdout serving_line, Stdout live_test_line] @ served)
         \<and> (\<forall>lib' conns'. \<exists>s'. run_script (kernel s) lib' conns' = Exited 1 s'
               \<and> trace s' = [Chdir ROOT, Socket_close, Stderr_traceback (OSError EADDRINUSE)])"
proof -
  let ?s0 = "\<lparr>kernel = k\<lparr>bound := ([], PORT) # bound k\<rparr>, cwd = getcwd_in k ROOT,
              listener = Some ([], PORT),
              trace = [Chdir ROOT, Socket_bind [] PORT, Socket_listen request_queue_size,
                       Stdout serving_line, Stdout live_test_line]\<rparr>"
  from assms have c: "chdir_error k ROOT = None"
    and s: "s = foldl (handle_request_noblock lib) ?s0 conns"
    by (auto simp add: run_cases split: option.splits if_splits)
  from s serving_frame [of lib ?s0 conns]
  have k: "kernel s = k\<lparr>bound := ([], PORT) # bound k\<rparr>"
    and t: "\<exists>served. trace s = trace ?s0 @ served"
    by simp_all
  from t have first: "\<exists>served. trace s =
      [Chdir ROOT, Socket_bind [] PORT, Socket_listen request_queue_size,
       Stdout serving_line, Stdout live_test_line] @ served"
    by simp
  have second: "\<exists>s'. run_script (kernel s) lib' conns' = Exited 1 s'
      \<and> trace s' = [Chdir ROOT, Socket_close, Stderr_traceback (OSError EADDRINUSE)]"
    for lib' conns'
    using c k by (simp add: run_cases)
  from first second show ?thesis by blast
qed

theorem startup_order_witness:
  "\<exists>s. run_script kernel1 lib0 [] = Running s
     \<and> (\<exists>served. trace s =
            [Chdir ROOT, Socket_bind [] PORT, Socket_listen request_queue_size,
             Stdout serving_line, Stdout live_test_line] @ served)
     \<and> (\<forall>lib' conns'. \<exists>s'. run_script (kernel s) lib' conns' = Exited 1 s'
           \<and> trace s' = [Chdir ROOT, Socket_close, Stderr_traceback (OSError EADDRINUSE)])"
proof -
  from kernel1_runs obtain s where r: "run_script kernel1 lib0 [] = Running s" ..
  from r startup_order [OF r] show ?thesis by blast
qed

text \<open>
  C6. If the bind fails, because a socket is bound to port 8000 already or because the
  operating system refuses the address for another reason, the only thing that reacts
  to the exception is the constructor of \<^verbatim>\<open>TCPServer\<close>, which closes the socket and
  raises it again. The process then prints the traceback and exits with status 1: it has
  not bound, has not bound a second time, has printed neither line and has accepted no
  connection.
\<close>

theorem bind_failure_is_fatal:
  assumes "chdir_error k ROOT = None"
    and "PORT \<in> snd ` set (bound k) \<or> bind_error k ([], PORT) = Some e"
  shows "\<exists>s. run_script k lib conns = Exited 1 s
           \<and> trace s = [Chdir ROOT, Socket_close,
                Stderr_traceback (if PORT \<in> snd ` set (bound k) then OSError EADDRINUSE else e)]
           \<and> listener s = None \<and> bound (kernel s) = bound k"
  using assms by (auto simp add: run_cases start_def)

theorem bind_failure_is_fatal_witness:
  "chdir_error kernel2 ROOT = None
   \<and> (PORT \<in> snd ` set (bound kernel2) \<or> bind_error kernel2 ([], PORT) = Some (OSError EACCES))
   \<and> (\<exists>s. run_script kernel2 lib0 [get_request ''GET / HTTP/1.1''] = Exited 1 s
           \<and> trace s = [Chdir ROOT, Socket_close, Stderr_traceback (OSError EADDRINUSE)]
           \<and> listener s = None \<and> bound (kernel s) = bound kernel2)"
proof -
  have a: "chdir_error kernel2 ROOT = None"
    by (simp add: kernel2_def kernel1_def)
  have b: "PORT \<in> snd ` set (bound kernel2)
      \<or> bind_error kernel2 ([], PORT) = Some (OSError EACCES)"
    by (simp add: kernel2_def kernel1_def PORT_def)
  have c: "PORT \<in> snd ` set (bound kernel2)"
    by (simp add: kernel2_def kernel1_def PORT_def)
  from bind_failure_is_fatal [OF a b, of lib0 "[get_request ''GET / HTTP/1.1'']"] a b c
  show ?thesis by simp
qed

text \<open>
  C10. When the script is running, its listening socket is bound to the empty host and
  port 8000, which receives the connections to port 8000 that arrive at any address of
  the machine; both lines it has printed name \<^verbatim>\<open>http://localhost:8000\<close>.
\<close>

theorem listens_on_every_interface:
  assumes "run_script k lib conns = Running s"
  shows "(\<exists>a. listener s = Some a \<and> a \<in> set (bound (kernel s)) \<and> fst a = []
            \<and> (\<forall>ip. receives a ip PORT))
         \<and> Stdout serving_line \<in> set (trace s) \<and> Stdout live_test_line \<in> set (trace s)
         \<and> sublist ''http://localhost:8000'' serving_line
         \<and> sublist ''http://localhost:8000'' live_test_line"
proof -
  let ?s0 = "\<lparr>kernel = k\<lparr>bound := ([], PORT) # bound k\<rparr>, cwd = getcwd_in k ROOT,
              listener = Some ([], PORT),
              trace = [Chdir ROOT, Socket_bind [] PORT, Socket_listen request_queue_size,
                       Stdout serving_line, Stdout live_test_line]\<rparr>"
  from assms have s: "s = foldl (handle_request_noblock lib) ?s0 conns"
    by (auto simp add: run_cases split: option.splits if_splits)
  from s serving_frame [of lib ?s0 conns]
  have k: "kernel s = k\<lparr>bound := ([], PORT) # bound k\<rparr>"
    and l: "listener s = Some ([], PORT)"
    and t: "\<exists>served. trace s = trace ?s0 @ served"
    by simp_all
  have a: "\<exists>a. listener s = Some a \<and> a \<in> set (bound (kernel s)) \<and> fst a = []
      \<and> (\<forall>ip. receives a ip PORT)"
    using k l by (simp add: receives_def)
  from t have b: "Stdout serving_line \<in> set (trace s) \<and> Stdout live_test_line \<in> set (trace s)"
    by auto
  have "serving_line = ([CHR 0xF0, CHR 0x9F, CHR 0x8C, CHR 0x90] @ '' Serving VIB34D system at '')
      @ ''http://localhost:8000'' @ []"
    by (simp add: serving_line_def str_nat_PORT)
  then have c: "sublist ''http://localhost:8000'' serving_line"
    by (metis sublist_appendI)
  have "live_test_line = ([CHR 0xF0, CHR 0x9F, CHR 0x93, CHR 0x8B] @ '' Live test: '')
      @ ''http://localhost:8000'' @ ''/live-test.html''"
    by (simp add: live_test_line_def str_nat_PORT)
  then have d: "sublist ''http://localhost:8000'' live_test_line"
    by (metis sublist_appendI)
  from a b c d show ?thesis by blast
qed

theorem listens_on_every_interface_witness:
  "\<exists>s. run_script kernel1 lib0 [] = Running s
     \<and> (\<exists>a. listener s = Some a \<and> a \<in> set (bound (kernel s)) \<and> fst a = []
            \<and> receives a ''192.168.1.20'' PORT \<and> receives a ''127.0.0.1'' PORT)
     \<and> Stdout serving_line \<in> set (trace s) \<and> Stdout live_test_line \<in> set (trace s)"
proof -
  from kernel1_runs obtain s where r: "run_script kernel1 lib0 [] = Running s" ..
  from r listens_on_every_interface [OF r] show ?thesis by blast
qed

lemma split_ws_acc_word:
  "\<forall>c \<in> set xs. \<not> isspace c \<Longrightarrow> split_ws_acc w (xs @ ys) = split_ws_acc (w @ xs) ys"
  by (induction xs arbitrary: w) auto

lemma split_ws_acc_word_space:
  "\<forall>c \<in> set xs. \<not> isspace c \<Longrightarrow> w @ xs \<noteq> [] \<Longrightarrow>
   split_ws_acc w (xs @ CHR '' '' # ys) = (w @ xs) # split_ws_acc [] ys"
proof (induction xs arbitrary: w)
  case Nil
  then show ?case by (simp add: isspace_def)
next
  case (Cons x xs)
  from Cons.prems Cons.IH [of "w @ [x]"] show ?case by simp
qed

lemma split_ws_three:
  assumes "a \<noteq> []" "\<forall>c \<in> set a. \<not> isspace c"
    and "b \<noteq> []" "\<forall>c \<in> set b. \<not> isspace c"
    and "c \<noteq> []" "\<forall>x \<in> set c. \<not> isspace x"
  shows "split_ws (a @ '' '' @ b @ '' '' @ c) = [a, b, c]"
proof -
  have "split_ws_acc [] (a @ CHR '' '' # b @ CHR '' '' # c) = a # split_ws_acc [] (b @ CHR '' '' # c)"
    using assms(1,2) split_ws_acc_word_space [of a "[]"] by simp
  also have "split_ws_acc [] (b @ CHR '' '' # c) = b # split_ws_acc [] c"
    using assms(3,4) split_ws_acc_word_space [of b "[]"] by simp
  also have "split_ws_acc [] c = [c]"
    using assms(5,6) split_ws_acc_word [of c "[]" "[]"] by simp
  finally show ?thesis by (simp add: split_ws_def)
qed

lemma parse_version_10: "parse_version ''HTTP/1.0'' = Some (1, 0)"
  by (simp add: parse_version_def startswith_def after_first_def str_isdigit_def isdigit_def
      py_int_def)

lemma parse_version_11: "parse_version ''HTTP/1.1'' = Some (1, 1)"
  by (simp add: parse_version_def startswith_def after_first_def str_isdigit_def isdigit_def
      py_int_def)

lemma parse_request_wellformed:
  assumes raw: "raw_requestline (request h) = cmd @ '' '' @ target @ '' '' @ version @ CRLF"
    and cmd: "cmd \<noteq> []" "\<forall>c \<in> set cmd. \<not> isspace c"
    and target: "target \<noteq> []" "\<forall>c \<in> set target. \<not> isspace c"
    and version: "version = ''HTTP/1.0'' \<or> version = ''HTTP/1.1''"
    and hs: "parsed_headers (request h) = Headers hs"
  shows "parse_request lib h =
     (True, h\<lparr>command := Some cmd, request_version := version,
              requestline := cmd @ '' '' @ target @ '' '' @ version,
              path := request_path target, headers := hs\<rparr>)"
proof -
  have v: "version \<noteq> []" "\<forall>x \<in> set version. \<not> isspace x"
    "parse_version version = Some (1, 0) \<or> parse_version version = Some (1, 1)"
    using version by (auto simp add: isspace_def parse_version_10 parse_version_11)
  have "rstrip_chars [CHR 0x0D, CHR 0x0A] (raw_requestline (request h))
      = cmd @ '' '' @ target @ '' '' @ version"
    using version by (auto simp add: raw rstrip_chars_def CRLF_def)
  moreover have "split_ws (cmd @ '' '' @ target @ '' '' @ version) = [cmd, target, version]"
    using cmd target v(1,2) by (rule split_ws_three)
  ultimately show ?thesis
    using v(3) hs
    by (auto simp add: parse_request_def parse_words_def parse_headers_step_def Let_def
        request_path_def)
qed




lemma handle_wellformed:
  assumes raw: "raw_requestline req = cmd @ '' '' @ target @ '' '' @ version @ CRLF"
    and len: "length (raw_requestline req) \<le> 65536"
    and cmd: "cmd \<noteq> []" "\<forall>c \<in> set cmd. \<not> isspace c"
    and target: "target \<noteq> []" "\<forall>c \<in> set target. \<not> isspace c"
    and version: "version = ''HTTP/1.0'' \<or> version = ''HTTP/1.1''"
    and hs: "parsed_headers req = Headers hs"
  shows "finish_request lib s req =
     (if cmd = ''GET'' then do_GET (kernel s) lib (parsed_handler s req cmd target version hs)
      else if cmd = ''HEAD'' then do_HEAD (kernel s) lib (parsed_handler s req cmd target version hs)
      else (Normal, send_error lib NOT_IMPLEMENTED
              (Some (''Unsupported method ('' @ repr lib cmd @ '')'')) None
              (parsed_handler s req cmd target version hs)))"
proof -
  have r: "raw_requestline (request (new_handler s req))
      = cmd @ '' '' @ target @ '' '' @ version @ CRLF"
    and h: "parsed_headers (request (new_handler s req)) = Headers hs"
    using raw hs by (simp_all add: new_handler_def)
  have p: "parse_request lib (new_handler s req) =
      (True, parsed_handler s req cmd target version hs)"
    using parse_request_wellformed [OF r cmd target version h, of lib]
    by (simp add: new_handler_def parsed_handler_def)
  have ne: "raw_requestline (request (new_handler s req)) \<noteq> []"
    using r cmd by simp
  have le: "\<not> 65536 < length (raw_requestline (request (new_handler s req)))"
    using len by (simp add: new_handler_def)
  have c: "command (parsed_handler s req cmd target version hs) = Some cmd"
    by (simp add: parsed_handler_def)
  show ?thesis
    unfolding finish_request_def handle_def handle_one_request_def
    using p ne le c by simp
qed

lemma str_nat_statuses:
  "str_nat 200 = ''200''" "str_nat 301 = ''301''" "str_nat 304 = ''304''"
  "str_nat 400 = ''400''" "str_nat 404 = ''404''" "str_nat 414 = ''414''"
  "str_nat 431 = ''431''" "str_nat 501 = ''501''" "str_nat 505 = ''505''"
  by (simp_all add: str_nat.simps digit_char_def)



lemma copyfileobj_sent:
  "\<exists>cs. sent (events (copyfileobj src h)) = sent (events h) @ cs \<and> concat cs = src"
proof (induction src h rule: copyfileobj.induct)
  case (1 src h)
  show ?case
  proof (cases "take COPY_BUFSIZE src = []")
    case True
    then have "src = []" by (simp add: COPY_BUFSIZE_def)
    then show ?thesis by (subst copyfileobj.simps) simp
  next
    case False
    from "1" [OF False] obtain cs where
      cs: "sent (events (copyfileobj (drop COPY_BUFSIZE src) (wfile_write (take COPY_BUFSIZE src) h)))
            = sent (events (wfile_write (take COPY_BUFSIZE src) h)) @ cs"
      and c: "concat cs = drop COPY_BUFSIZE src"
      by blast
    have "sent (events (copyfileobj src h)) = sent (events h) @ (take COPY_BUFSIZE src # cs)"
      using False cs by (subst copyfileobj.simps) simp
    moreover have "concat (take COPY_BUFSIZE src # cs) = src"
      using c by simp
    ultimately show ?thesis by blast
  qed
qed

lemma normpath_simple:
  "normpath ''/live-test.html'' = ''/live-test.html''"
  "normpath ''/assets/'' = ''/assets''"
  by (simp_all add: normpath_def initial_slashes_def startswith_def Let_def)

lemma translate_live_test:
  "translate_path lib h ''/live-test.html'' = path_join (directory h) ''live-test.html''"
  by (simp add: translate_path_def before_first_def unquote_path_def normpath_simple Let_def
      endswith_slash rstrip_def isspace_def add_word_def dirname_def rstrip_chars_def)

lemma translate_assets:
  "translate_path lib h ''/assets/'' = path_join (directory h) ''assets'' @ ''/''"
  by (simp add: translate_path_def before_first_def unquote_path_def normpath_simple Let_def
      endswith_slash rstrip_def isspace_def add_word_def dirname_def rstrip_chars_def)














lemma html_escape_append: "html_escape (a @ b) = html_escape a @ html_escape b"
  by (simp add: html_escape_def)

lemma html_escape_plain: "\<forall>c \<in> set name. c \<notin> set ''&<>'' \<Longrightarrow> html_escape name = name"
  by (induction name) (auto simp add: html_escape_def escape_char_def)

lemma fs_encode_append: "fs_encode lib (a @ b) = fs_encode lib a @ fs_encode lib b"
  by (simp add: fs_encode_def)

lemma fs_encode_sublist:
  assumes "sublist a b"
  shows "sublist (fs_encode lib a) (fs_encode lib b)"
proof -
  from assms obtain ps ss where "b = ps @ a @ ss"
    by (auto simp add: sublist_def)
  then have "fs_encode lib b = fs_encode lib ps @ fs_encode lib a @ fs_encode lib ss"
    by (simp add: fs_encode_append)
  then show ?thesis
    by (metis sublist_appendI)
qed

lemma sublist_join_with: "y \<in> set ys \<Longrightarrow> sublist y (join_with sep ys)"
proof (induction sep ys rule: join_with.induct)
  case (1 sep)
  then show ?case by simp
next
  case (2 sep w)
  then show ?case by simp
next
  case (3 sep w v vs)
  show ?case
  proof (cases "y = w")
    case True
    then show ?thesis by (simp add: sublist_append_rightI)
  next
    case False
    with 3 have "sublist y (join_with sep (v # vs))" by simp
    then obtain ps ss where "join_with sep (v # vs) = ps @ y @ ss"
      by (auto simp add: sublist_def)
    then have "join_with sep (w # v # vs) = (w @ sep @ ps) @ y @ ss"
      by simp
    then show ?thesis
      by (metis sublist_appendI)
  qed
qed

lemma list_item_names: "sublist (html_escape name) (list_item k lib p name)"
proof -
  define linkname where
    "linkname = (if isdir k (path_join p name) then name @ ''/'' else name)"
  define mark where
    "mark = (if islink k (path_join p name) then ''@''
             else if isdir k (path_join p name) then ''/'' else [])"
  have "list_item k lib p name =
      (''<li><a href='' @ [CHR 0x22] @ quote lib linkname @ [CHR 0x22] @ ''>'')
        @ html_escape name @ (html_escape mark @ ''</a></li>'')"
    by (simp add: list_item_def Let_def html_escape_append linkname_def mark_def
        html_escape_def)
  then show ?thesis
    by (metis sublist_appendI)
qed

lemma listing_names:
  assumes "name \<in> set names"
  shows "sublist (html_escape name) (join_with LF (listing_page k lib h p names))"
proof -
  have "list_item k lib p name \<in> set (listing_page k lib h p names)"
    using assms by (simp add: listing_page_def Let_def)
  then have "sublist (list_item k lib p name) (join_with LF (listing_page k lib h p names))"
    by (rule sublist_join_with)
  with list_item_names [of name k lib p] show ?thesis
    by (rule sublist_order.order_trans)
qed

lemma path_join_slash: "endswith p ''/'' \<Longrightarrow> b \<noteq> [] \<Longrightarrow> hd b \<noteq> CHR ''/'' \<Longrightarrow> path_join p b = p @ b"
  by (cases b) (auto simp add: path_join_def startswith_def)


text \<open>
  C7, for requests with a version and a directory that can be listed. The root directory
  holds a directory \<^verbatim>\<open>assets\<close> without \<^verbatim>\<open>index.html\<close> and \<^verbatim>\<open>index.htm\<close>, and
  \<^verbatim>\<open>os.listdir\<close> returns its entries \<open>names\<close>. A \<^verbatim>\<open>GET\<close> request for \<^verbatim>\<open>/assets/\<close>
  with the version \<^verbatim>\<open>HTTP/1.0\<close> or \<^verbatim>\<open>HTTP/1.1\<close> and headers that can be parsed, in
  which \<^verbatim>\<open>urlsplit\<close> finds the path \<^verbatim>\<open>/assets/\<close>, is answered with the status line \<^verbatim>\<open>HTTP/1.0 200 OK\<close>, a header block, and the page \<open>body\<close> that
  \<^verbatim>\<open>list_directory\<close> builds. The page holds every name as HTML text, that is
  with \<open>&\<close>, \<open><\<close> and \<open>>\<close> escaped, in the bytes of the file system encoding; a name
  without these three characters stands in the page as it is.
\<close>

theorem directory_listed:
  assumes raw: "raw_requestline req = ''GET /assets/ '' @ version @ CRLF"
    and version: "version = ''HTTP/1.0'' \<or> version = ''HTTP/1.1''"
    and hs: "parsed_headers req = Headers hs"
    and p: "p = path_join (cwd s) ''assets'' @ ''/''"
    and dir: "isdir (kernel s) p"
    and split: "urlsplit lib ''/assets/'' = Returns ([], [], ''/assets/'', [], [])"
    and noindex: "\<not> isfile (kernel s) (path_join p ''index.html'')"
      "\<not> isfile (kernel s) (path_join p ''index.htm'')"
    and names: "listdir (kernel s) p = Returns names"
    and body: "body = fs_encode lib (join_with LF
                 (listing_page (kernel s) lib (parsed_handler s req ''GET'' ''/assets/'' version hs) p
                    (sort_key (lower lib) names)))"
  shows "\<exists>h chunks. finish_request lib s req = (Normal, h)
    \<and> sent (events h) =
        concat [''HTTP/1.0 200 OK'' @ CRLF,
                ''Server: '' @ version_string lib @ CRLF,
                ''Date: '' @ date_time_string lib (now req) @ CRLF,
                ''Content-type: text/html; charset='' @ fs_encoding lib @ CRLF,
                ''Content-Length: '' @ str_nat (length body) @ CRLF,
                COEP_line, COOP_line, CRLF] # chunks
    \<and> concat chunks = body
    \<and> (\<forall>name \<in> set names.
          sublist (fs_encode lib (html_escape name)) body
          \<and> ((\<forall>c \<in> set name. c \<notin> set ''&<>'') \<longrightarrow> sublist (fs_encode lib name) body))"
proof -
  let ?h = "parsed_handler s req ''GET'' ''/assets/'' version hs"
  have raw': "raw_requestline req = ''GET'' @ '' '' @ ''/assets/'' @ '' '' @ version @ CRLF"
    using raw by simp
  have len: "length (raw_requestline req) \<le> 65536"
    using raw version by (auto simp add: CRLF_def)
  have f: "finish_request lib s req = do_GET (kernel s) lib ?h"
    using handle_wellformed [OF raw' len _ _ _ _ version hs, of lib s]
    by (simp add: isspace_def)
  have v: "request_version ?h \<noteq> ''HTTP/0.9''"
    using version by (auto simp add: parsed_handler_def)
  have pa: "path ?h = ''/assets/''"
    by (simp add: parsed_handler_def request_path_def startswith_def)
  have tp: "translate_path lib ?h (path ?h) = p"
    by (simp add: pa p translate_assets) (simp add: parsed_handler_def)
  let ?h2 = "stat_call (path_join p ''index.htm'') (stat_call (path_join p ''index.html'') (stat_call p ?h))"
  have fi: "find_index (kernel s) p (stat_call p ?h) = (None, ?h2)"
    using noindex by (simp add: find_index_def Let_def)
  let ?names = "sort_key (lower lib) names"
  let ?h3 = "?h2\<lparr>events := events ?h2 @ [Listdir p]\<rparr>"
  let ?h4 = "?h3\<lparr>events := events ?h3 @ concat (map (list_item_calls p) ?names)\<rparr>"
  let ?h7 = "end_headers
               (send_header ''Content-Length'' (str_nat (length body))
                  (send_header ''Content-type'' (''text/html; charset='' @ fs_encoding lib)
                     (send_response lib OK None ?h4)))"
  have lp: "listing_page (kernel s) lib ?h2 p ?names = listing_page (kernel s) lib ?h p ?names"
    by (simp add: listing_page_def)
  have ld: "list_directory (kernel s) lib p ?h2 = (Returns (Some body), ?h7)"
    using names by (simp add: list_directory_def Let_def body lp)
  have sh: "send_head (kernel s) lib ?h = (Returns (Some body), ?h7)"
    using dir tp split fi ld by (simp add: send_head_def Let_def endswith_slash pa)
  have g: "do_GET (kernel s) lib ?h = (Normal, copyfileobj body ?h7)"
    by (simp add: do_GET_def sh copyfile_def)
  have sc: "sent (concat (map (list_item_calls p) ns)) = []" for ns
    by (induction ns) (simp_all add: list_item_calls_def)
  have s7: "sent (events ?h7) =
      [concat [''HTTP/1.0 200 OK'' @ CRLF,
                ''Server: '' @ version_string lib @ CRLF,
                ''Date: '' @ date_time_string lib (now req) @ CRLF,
                ''Content-type: text/html; charset='' @ fs_encoding lib @ CRLF,
                ''Content-Length: '' @ str_nat (length body) @ CRLF,
                COEP_line, COOP_line, CRLF]]"
    using v
    by (simp add: sc parsed_handler_def status_line_def protocol_version_def str_nat_statuses)
  from copyfileobj_sent [of body ?h7] obtain cs where
    cs: "sent (events (copyfileobj body ?h7)) = sent (events ?h7) @ cs" "concat cs = body"
    by blast
  have n: "sublist (fs_encode lib (html_escape name)) body
      \<and> ((\<forall>c \<in> set name. c \<notin> set ''&<>'') \<longrightarrow> sublist (fs_encode lib name) body)"
    if "name \<in> set names" for name
  proof -
    from that have "name \<in> set ?names" by simp
    then have "sublist (html_escape name)
        (join_with LF (listing_page (kernel s) lib ?h p ?names))"
      by (rule listing_names)
    then have e: "sublist (fs_encode lib (html_escape name)) body"
      unfolding body by (rule fs_encode_sublist)
    have "sublist (fs_encode lib name) body" if "\<forall>c \<in> set name. c \<notin> set ''&<>''"
      using e html_escape_plain [OF that] by simp
    with e show ?thesis by blast
  qed
  have r: "finish_request lib s req = (Normal, copyfileobj body ?h7)"
    using f g by simp
  have t: "sent (events (copyfileobj body ?h7)) =
      concat [''HTTP/1.0 200 OK'' @ CRLF,
                ''Server: '' @ version_string lib @ CRLF,
                ''Date: '' @ date_time_string lib (now req) @ CRLF,
                ''Content-type: text/html; charset='' @ fs_encoding lib @ CRLF,
                ''Content-Length: '' @ str_nat (length body) @ CRLF,
                COEP_line, COOP_line, CRLF] # cs"
    using cs(1) s7 by simp
  from r t cs(2) n show ?thesis by blast
qed


subsection \<open>The three requests on a concrete machine\<close>

lemma get_request_fields [simp]:
  "raw_requestline (get_request line) = line @ CRLF"
  "parsed_headers (get_request line) = Headers []"
  "now (get_request line) = 2000"
  by (simp_all add: get_request_def)

lemma process1_fields [simp]:
  "kernel process1 = kernel1" "cwd process1 = ROOT"
  by (simp_all add: process1_def)



lemma ROOT_join: "path_join ROOT (c # cs) = (if c = CHR ''/'' then c # cs else ROOT @ ''/'' @ c # cs)"
  by (simp add: path_join_def startswith_def endswith_slash ROOT_def)




theorem directory_listed_witness:
  "isdir (kernel process1) (ROOT @ ''/assets/'')
   \<and> listdir (kernel process1) (ROOT @ ''/assets/'') = Returns [''b&w.png'', ''a.js'']
   \<and> (\<exists>h chunks.
        finish_request lib0 process1 (get_request ''GET /assets/ HTTP/1.1'') = (Normal, h)
      \<and> prefix (''HTTP/1.0 200 OK'' @ CRLF) (hd (sent (events h)))
      \<and> tl (sent (events h)) = chunks
      \<and> sublist ''a.js'' (concat chunks)
      \<and> sublist ''b&amp;w.png'' (concat chunks))"
proof -
  let ?req = "get_request ''GET /assets/ HTTP/1.1''"
  define body where "body = fs_encode lib0 (join_with LF
       (listing_page (kernel process1) lib0
          (parsed_handler process1 ?req ''GET'' ''/assets/'' ''HTTP/1.1'' []) (ROOT @ ''/assets/'')
          (sort_key (lower lib0) [''b&w.png'', ''a.js''])))"
  have raw: "raw_requestline ?req = ''GET /assets/ '' @ ''HTTP/1.1'' @ CRLF"
    by simp
  have version: "''HTTP/1.1'' = ''HTTP/1.0'' \<or> ''HTTP/1.1'' = ''HTTP/1.1''"
    by simp
  have hs: "parsed_headers ?req = Headers []"
    by simp
  have p: "ROOT @ ''/assets/'' = path_join (cwd process1) ''assets'' @ ''/''"
    by (simp add: ROOT_join)
  have dir: "isdir (kernel process1) (ROOT @ ''/assets/'')"
    by (simp add: kernel1_def)
  have split: "urlsplit lib0 ''/assets/'' = Returns ([], [], ''/assets/'', [], [])"
    by (simp add: lib0_def)
  have noindex: "\<not> isfile (kernel process1) (path_join (ROOT @ ''/assets/'') ''index.html'')"
    "\<not> isfile (kernel process1) (path_join (ROOT @ ''/assets/'') ''index.htm'')"
    by (simp_all add: kernel1_def path_join_def startswith_def ROOT_def)
  have names: "listdir (kernel process1) (ROOT @ ''/assets/'') = Returns [''b&w.png'', ''a.js'']"
    by (simp add: kernel1_def)
  have e: "fs_encode lib0 (html_escape ''a.js'') = ''a.js''"
    "fs_encode lib0 (html_escape ''b&w.png'') = ''b&amp;w.png''"
    by (simp_all add: fs_encode_def lib0_def html_escape_def escape_char_def)
  from directory_listed [OF raw version hs p dir split noindex names body_def]
  obtain h chunks where
    "finish_request lib0 process1 ?req = (Normal, h)"
    "sent (events h) =
        concat [''HTTP/1.0 200 OK'' @ CRLF,
                ''Server: '' @ version_string lib0 @ CRLF,
                ''Date: '' @ date_time_string lib0 (now ?req) @ CRLF,
                ''Content-type: text/html; charset='' @ fs_encoding lib0 @ CRLF,
                ''Content-Length: '' @ str_nat (length body) @ CRLF,
                COEP_line, COOP_line, CRLF] # chunks"
    "concat chunks = body"
    "sublist (fs_encode lib0 (html_escape ''a.js'')) body"
    "sublist (fs_encode lib0 (html_escape ''b&w.png'')) body"
    by auto
  with dir names e show ?thesis
    by (auto simp add: CRLF_def)
qed







lemma process_fields [simp]:
  "kernel process3 = kernel3" "cwd process3 = ROOT"
  "kernel process4 = kernel4" "cwd process4 = ROOT"
  "kernel process5 = kernel5" "cwd process5 = ROOT"
  by (simp_all add: process3_def process4_def process5_def)







subsection \<open>Every answer carries the two headers\<close>

lemma isolated_append: "isolated ws \<Longrightarrow> isolated (ws @ cs)"
  unfolding isolated_def by auto

lemma status_line_prefix: "prefix ''HTTP/1.0 '' (status_line code m)"
  by (simp add: status_line_def protocol_version_def)

lemma answered_ok: "answered h \<Longrightarrow> ok h"
  by (simp add: answered_def ok_def)

lemma fresh_ok: "fresh h \<Longrightarrow> ok h"
  by (simp add: fresh_def ok_def)

lemma sent_item_calls [simp]: "sent (concat (map (list_item_calls p) names)) = []"
  by (induction names) (simp_all add: list_item_calls_def)

lemma fresh_events: "fresh h \<Longrightarrow> sent es = [] \<Longrightarrow> fresh (h\<lparr>events := events h @ es\<rparr>)"
  by (simp add: fresh_def)

lemma fresh_stat: "fresh h \<Longrightarrow> fresh (stat_call p h)"
  by (simp add: fresh_def)

lemma fresh_log: "fresh h \<Longrightarrow> fresh (log_message m h)"
  by (simp add: fresh_def)

lemma started_response: "fresh h \<Longrightarrow> started (send_response lib code m h)"
  by (simp add: fresh_def started_def status_line_prefix)

lemma started_header: "started h \<Longrightarrow> started (send_header kw v h)"
  by (auto simp add: started_def)

lemma answered_end_headers: "started h \<Longrightarrow> answered (end_headers h)"
proof -
  assume s: "started h"
  show ?thesis
  proof (cases "request_version h = ''HTTP/0.9''")
    case True
    then show ?thesis by (simp add: answered_def)
  next
    case False
    with s have "sent (events (end_headers h))
        = concat (headers_buffer h @ [COEP_line, COOP_line, CRLF]) # []"
      and "headers_buffer h \<noteq> []" and "prefix ''HTTP/1.0 '' (hd (headers_buffer h))"
      by (simp_all add: started_def)
    then have "isolated (sent (events (end_headers h)))"
      unfolding isolated_def by blast
    then show ?thesis unfolding answered_def by blast
  qed
qed

lemma answered_write: "answered h \<Longrightarrow> answered (wfile_write b h)"
  by (auto simp add: answered_def intro: isolated_append)

lemma answered_send_error:
  assumes "fresh h"
  shows "answered (send_error lib code m e h)"
proof -
  have "answered (end_headers x)" if "started x" for x
    using that by (rule answered_end_headers)
  then show ?thesis
    using assms
    unfolding send_error_def Let_def log_error_def
    by (auto split: option.splits intro!: answered_write answered_end_headers started_header
        started_response fresh_log simp del: end_headers_fields send_response_fields
        send_header_fields wfile_write_fields log_message_fields)
qed

lemma answered_redirect: "fresh h \<Longrightarrow> answered (redirect lib parts h)"
  unfolding redirect_def
  by (auto split: prod.splits intro!: answered_end_headers started_header started_response
      simp del: end_headers_fields send_response_fields send_header_fields)

lemma copyfileobj_answered: "answered h \<Longrightarrow> answered (copyfileobj src h)"
proof -
  assume a: "answered h"
  from copyfileobj_sent [of src h] obtain cs where
    "sent (events (copyfileobj src h)) = sent (events h) @ cs" by blast
  with a show ?thesis
    by (auto simp add: answered_def intro: isolated_append)
qed

lemma left_Returns: "answered h \<Longrightarrow> left (Returns f, h)"
  by (simp add: left_def)

lemma left_Throws: "fresh h \<Longrightarrow> left (Throws e, h)"
  by (simp add: left_def)

lemma left_send_file: "fresh h \<Longrightarrow> left (send_file k lib p h)"
  unfolding send_file_def Let_def
  by (auto split: outcome.splits
      intro!: left_Returns left_Throws answered_send_error answered_end_headers started_header
        started_response fresh_events
      simp del: end_headers_fields send_response_fields send_header_fields)

lemma left_list_directory: "fresh h \<Longrightarrow> left (list_directory k lib p h)"
  unfolding list_directory_def Let_def
  by (auto split: outcome.splits
      intro!: left_Returns left_Throws answered_send_error answered_end_headers started_header
        started_response fresh_events
      simp del: end_headers_fields send_response_fields send_header_fields)

lemma fresh_find_index: "fresh h \<Longrightarrow> fresh (snd (find_index k p h))"
  by (simp add: find_index_def Let_def fresh_def)

lemma left_send_head: "fresh h \<Longrightarrow> left (send_head k lib h)"
proof -
  assume f: "fresh h"
  let ?p = "translate_path lib h (path h)"
  have f1: "fresh (stat_call ?p h)" using f by (rule fresh_stat)
  obtain r h2 where fi: "find_index k ?p (stat_call ?p h) = (r, h2)"
    by (cases "find_index k ?p (stat_call ?p h)")
  from fresh_find_index [OF f1, of k ?p] fi have f2: "fresh h2" by simp
  show ?thesis
    unfolding send_head_def Let_def fi
    using f1 f2
    by (auto split: outcome.splits option.splits
        intro!: left_Returns left_Throws left_send_file left_list_directory answered_redirect)
qed


lemma ok_do_GET: "fresh h \<Longrightarrow> ok (snd (do_GET k lib h))"
proof -
  assume f: "fresh h"
  obtain r h1 where sh: "send_head k lib h = (r, h1)"
    by (cases "send_head k lib h")
  from left_send_head [OF f, of k lib] sh
  have l: "case r of Returns x \<Rightarrow> answered h1 | Throws e \<Rightarrow> fresh h1"
    by (cases r) (simp_all add: left_def)
  show ?thesis
  proof (cases r)
    case (Throws e)
    with l have "fresh h1" by simp
    then have "ok h1" by (rule fresh_ok)
    with Throws show ?thesis by (simp add: do_GET_def sh)
  next
    case (Returns x)
    with l have a: "answered h1" by simp
    show ?thesis
    proof (cases x)
      case None
      from a have "ok h1" by (rule answered_ok)
      with Returns None show ?thesis by (simp add: do_GET_def sh)
    next
      case (Some src)
      from a have "answered (copyfileobj src h1)" by (rule copyfileobj_answered)
      then have "ok (copyfileobj src h1)" by (rule answered_ok)
      with Returns Some show ?thesis by (simp add: do_GET_def sh copyfile_def)
    qed
  qed
qed

lemma ok_do_HEAD: "fresh h \<Longrightarrow> ok (snd (do_HEAD k lib h))"
proof -
  assume f: "fresh h"
  obtain r h1 where sh: "send_head k lib h = (r, h1)"
    by (cases "send_head k lib h")
  from left_send_head [OF f, of k lib] sh
  have l: "case r of Returns x \<Rightarrow> answered h1 | Throws e \<Rightarrow> fresh h1"
    by (cases r) (simp_all add: left_def)
  show ?thesis
  proof (cases r)
    case (Throws e)
    with l have "fresh h1" by simp
    then have "ok h1" by (rule fresh_ok)
    with Throws show ?thesis by (simp add: do_HEAD_def sh)
  next
    case (Returns x)
    with l have "answered h1" by simp
    then have "ok h1" by (rule answered_ok)
    with Returns show ?thesis by (simp add: do_HEAD_def sh)
  qed
qed

lemma ok_send_error: "fresh h \<Longrightarrow> ok (send_error lib code m e h)"
  by (intro answered_ok answered_send_error)

lemma parsed_ok_error: "fresh h \<Longrightarrow> parsed_ok (False, send_error lib code m e h)"
  by (simp add: parsed_ok_def ok_send_error)

lemma parsed_ok_True: "fresh h \<Longrightarrow> parsed_ok (True, h)"
  by (simp add: parsed_ok_def)

lemma parsed_ok_False: "fresh h \<Longrightarrow> parsed_ok (False, h)"
  by (simp add: parsed_ok_def fresh_ok)

lemma fresh_fields [simp]:
  "fresh (h\<lparr>command := a\<rparr>) = fresh h"
  "fresh (h\<lparr>request_version := b\<rparr>) = fresh h"
  "fresh (h\<lparr>requestline := c\<rparr>) = fresh h"
  "fresh (h\<lparr>path := d\<rparr>) = fresh h"
  "fresh (h\<lparr>headers := e\<rparr>) = fresh h"
  by (simp_all add: fresh_def)

lemma parsed_ok_headers: "fresh h \<Longrightarrow> parsed_ok (parse_headers_step lib h)"
  unfolding parse_headers_step_def
  by (auto split: header_parse.splits intro!: parsed_ok_error parsed_ok_True)

lemma parsed_ok_words: "fresh h \<Longrightarrow> parsed_ok (parse_words lib ws h)"
  unfolding parse_words_def Let_def
  by (auto intro!: parsed_ok_error parsed_ok_headers)

lemma parsed_ok_request: "fresh h \<Longrightarrow> parsed_ok (parse_request lib h)"
  unfolding parse_request_def Let_def
  by (auto split: option.splits intro!: parsed_ok_error parsed_ok_words
      simp add: parsed_ok_False)

lemma ok_handle:
  assumes "fresh h"
  shows "ok (snd (handle k lib h))"
proof -
  obtain b h1 where p: "parse_request lib h = (b, h1)"
    by (cases "parse_request lib h")
  from parsed_ok_request [OF assms, of lib] p
  have q: "if b then fresh h1 else ok h1"
    by (cases b) (simp_all add: parsed_ok_def)
  show ?thesis
  proof (cases "length (raw_requestline (request h)) > 65536")
    case True
    have "ok (send_error lib REQUEST_URI_TOO_LONG None None
        (h\<lparr>requestline := [], request_version := [], command := Some []\<rparr>))"
      using assms by (intro ok_send_error) simp
    with True show ?thesis by (simp add: handle_def handle_one_request_def)
  next
    case False
    show ?thesis
    proof (cases "raw_requestline (request h) = []")
      case True
      with False fresh_ok [OF assms] show ?thesis
        by (simp add: handle_def handle_one_request_def)
    next
      case ne: False
      show ?thesis
      proof (cases b)
        case False
        with q \<open>\<not> 65536 < length (raw_requestline (request h))\<close> ne p show ?thesis
          by (simp add: handle_def handle_one_request_def)
      next
        case True
        with q have f1: "fresh h1" by simp
        have e: "ok (send_error lib NOT_IMPLEMENTED m None h1)" for m
          using f1 by (rule ok_send_error)
        from True \<open>\<not> 65536 < length (raw_requestline (request h))\<close> ne p e
          ok_do_GET [OF f1, of k lib] ok_do_HEAD [OF f1, of k lib] fresh_ok [OF f1]
        show ?thesis
          by (simp add: handle_def handle_one_request_def split: option.splits)
      qed
    qed
  qed
qed

lemma send_head_version:
  "request_version (snd (send_head k lib h)) = request_version h"
proof -
  let ?p = "translate_path lib h (path h)"
  have f: "request_version (snd (find_index k ?p (stat_call ?p h))) = request_version h"
    by (simp add: find_index_def Let_def)
  have sf: "request_version (snd (send_file k lib p x)) = request_version x" for p x
    by (simp add: send_file_def Let_def send_error_fields split: outcome.splits)
  have ld: "request_version (snd (list_directory k lib p x)) = request_version x" for p x
    by (simp add: list_directory_def Let_def send_error_fields split: outcome.splits)
  have rd: "request_version (redirect lib parts x) = request_version x" for parts x
    by (simp add: redirect_def split: prod.splits)
  obtain r h2 where fi: "find_index k ?p (stat_call ?p h) = (r, h2)"
    by (cases "find_index k ?p (stat_call ?p h)")
  with f have "request_version h2 = request_version h" by simp
  with fi show ?thesis
    by (simp add: send_head_def Let_def sf ld rd split: outcome.splits option.splits)
qed

lemma do_GET_version: "request_version (snd (do_GET k lib h)) = request_version h"
  using send_head_version [of k lib h]
  by (auto simp add: do_GET_def copyfile_def split: prod.splits outcome.splits option.splits)

lemma do_HEAD_version: "request_version (snd (do_HEAD k lib h)) = request_version h"
  using send_head_version [of k lib h]
  by (auto simp add: do_HEAD_def split: prod.splits outcome.splits)

lemma parse_request_version:
  "request_version (snd (parse_request lib h)) =
     (if 3 \<le> length (request_words (request h)) then
        (case parse_version (last (request_words (request h))) of
           Some (major, minor) \<Rightarrow> if major < 2 then last (request_words (request h)) else ''HTTP/0.9''
         | None \<Rightarrow> ''HTTP/0.9'')
      else ''HTTP/0.9'')"
  by (simp add: parse_request_def parse_words_def parse_headers_step_def Let_def request_words_def
      send_error_fields default_request_version_def CRLF_def
      split: option.splits header_parse.splits prod.splits)

lemma handle_version:
  assumes "versioned (request h)"
  shows "request_version (snd (handle k lib h)) \<noteq> ''HTTP/0.9''"
proof (cases "65536 < length (raw_requestline (request h))")
  case True
  then show ?thesis
    by (simp add: handle_def handle_one_request_def send_error_fields)
next
  case False
  with assms have w: "3 \<le> length (request_words (request h))"
    and v: "last (request_words (request h)) \<noteq> ''HTTP/0.9''"
    and p: "case parse_version (last (request_words (request h))) of
          Some (major, minor) \<Rightarrow> major < 2 | None \<Rightarrow> False"
    by (simp_all add: versioned_def)
  from w have ne: "raw_requestline (request h) \<noteq> []"
    by (auto simp add: request_words_def rstrip_chars_def split_ws_def)
  obtain b h1 where pr: "parse_request lib h = (b, h1)"
    by (cases "parse_request lib h")
  from parse_request_version [of lib h] pr w v p
  have v1: "request_version h1 \<noteq> ''HTTP/0.9''"
    by (auto split: option.splits)
  from False ne pr v1 do_GET_version [of k lib h1] do_HEAD_version [of k lib h1]
  show ?thesis
    by (cases b) (auto simp add: handle_def handle_one_request_def send_error_fields
        split: option.splits)
qed

text \<open>
  C1, for the requests with a version. A request whose line is longer than 65536 bytes, or
  has at least three words the last of which is a version \<^verbatim>\<open>HTTP/major.minor\<close> with a
  major number below 2 other than \<^verbatim>\<open>HTTP/0.9\<close>, leaves the handler with a
  \<^verbatim>\<open>request_version\<close> that is not \<^verbatim>\<open>HTTP/0.9\<close>; and then, whatever the request
  is and whatever the file system holds, if the server writes anything to the connection,
  what it writes first is a header block that starts with a status line and ends with the
  two headers of the script and the empty line. Every path to an answer (a file, a
  directory listing, a redirection, \<^verbatim>\<open>304\<close>, every error) ends its headers by
  \<^verbatim>\<open>self.end_headers()\<close>, which is the script's method.
\<close>

theorem isolation_headers:
  assumes "finish_request lib s req = (c, h)"
    and "versioned req"
    and "sent (events h) \<noteq> []"
  shows "request_version h \<noteq> ''HTTP/0.9''
    \<and> (\<exists>lines rest. sent (events h) = concat (lines @ [COEP_line, COOP_line, CRLF]) # rest
           \<and> lines \<noteq> [] \<and> prefix ''HTTP/1.0 '' (hd lines))"
proof -
  have "versioned (request (new_handler s req))"
    using assms(2) by (simp add: new_handler_def)
  then have "request_version (snd (handle (kernel s) lib (new_handler s req))) \<noteq> ''HTTP/0.9''"
    by (rule handle_version)
  with assms(1) have v: "request_version h \<noteq> ''HTTP/0.9''"
    by (simp add: finish_request_def)
  have "fresh (new_handler s req)"
    by (simp add: fresh_def new_handler_def)
  then have "ok (snd (handle (kernel s) lib (new_handler s req)))"
    by (rule ok_handle)
  with assms(1,3) v have "isolated (sent (events h))"
    by (simp add: finish_request_def ok_def)
  with v show ?thesis
    by (simp add: isolated_def)
qed


lemma request_words_POST: "request_words (get_request ''POST / HTTP/1.1'') = [''POST'', ''/'', ''HTTP/1.1'']"
  by (simp add: request_words_def CRLF_def rstrip_chars_def split_ws_def isspace_def)

theorem isolation_headers_witness:
  "versioned (get_request ''POST / HTTP/1.1'')
   \<and> sent (events (snd (finish_request lib0 process1 (get_request ''POST / HTTP/1.1'')))) \<noteq> []
   \<and> request_version (snd (finish_request lib0 process1 (get_request ''POST / HTTP/1.1''))) \<noteq> ''HTTP/0.9''
   \<and> (\<exists>lines rest.
         sent (events (snd (finish_request lib0 process1 (get_request ''POST / HTTP/1.1''))))
           = concat (lines @ [COEP_line, COOP_line, CRLF]) # rest
         \<and> lines \<noteq> [] \<and> prefix ''HTTP/1.0 '' (hd lines))"
proof -
  let ?req = "get_request ''POST / HTTP/1.1''"
  let ?h = "parsed_handler process1 ?req ''POST'' ''/'' ''HTTP/1.1'' []"
  let ?m = "Some (''Unsupported method ('' @ repr lib0 ''POST'' @ '')'')"
  have raw: "raw_requestline ?req = ''POST'' @ '' '' @ ''/'' @ '' '' @ ''HTTP/1.1'' @ CRLF"
    by simp
  have len: "length (raw_requestline ?req) \<le> 65536"
    by (simp add: CRLF_def)
  have f: "finish_request lib0 process1 ?req
      = (Normal, send_error lib0 NOT_IMPLEMENTED ?m None ?h)"
    using handle_wellformed [OF raw len, of "[]" lib0 process1]
    by (simp add: isspace_def)
  have v: "request_version ?h \<noteq> ''HTTP/0.9''"
    by (simp add: parsed_handler_def)
  have ve: "versioned ?req"
    by (simp add: versioned_def request_words_POST parse_version_11)
  have ne: "sent (events (snd (finish_request lib0 process1 ?req))) \<noteq> []"
    using send_error_sent [OF v, of NOT_IMPLEMENTED lib0 ?m None] by (simp add: f)
  have p: "finish_request lib0 process1 ?req
      = (fst (finish_request lib0 process1 ?req), snd (finish_request lib0 process1 ?req))"
    by simp
  from isolation_headers [OF p ve ne] ve ne show ?thesis by blast
qed

lemma copyfileobj_small:
  assumes "src \<noteq> []" "length src \<le> COPY_BUFSIZE"
  shows "copyfileobj src h = wfile_write src h"
proof -
  have "copyfileobj src h = copyfileobj [] (wfile_write src h)"
    using assms by (subst copyfileobj.simps) simp
  also have "\<dots> = wfile_write src h"
    by (subst copyfileobj.simps) simp
  finally show ?thesis .
qed

lemma parse_simple_request:
  "parse_request lib0 (new_handler process1 (get_request ''GET /live-test.html'')) =
     (True, (new_handler process1 (get_request ''GET /live-test.html''))\<lparr>command := Some ''GET'',
        path := ''/live-test.html'', request_version := ''HTTP/0.9'',
        requestline := ''GET /live-test.html'', headers := []\<rparr>)"
  by (simp add: parse_request_def parse_words_def parse_headers_step_def Let_def
      new_handler_def get_request_def CRLF_def rstrip_chars_def
      split_ws_def isspace_def default_request_version_def startswith_def lstrip_chars_def)

text \<open>
  C1 without its condition. The request line \<^verbatim>\<open>GET /live-test.html\<close>, which has no
  version, is answered with the bytes of the file and nothing else: no status line and
  neither of the two headers.
\<close>

theorem isolation_headers_counterexample:
  "sent (events (snd (finish_request lib0 process1 (get_request ''GET /live-test.html''))))
     = [''<html>live</html>'']
   \<and> \<not> sublist ''Cross-Origin-Embedder-Policy'' ''<html>live</html>''
   \<and> \<not> sublist ''Cross-Origin-Opener-Policy'' ''<html>live</html>''"
proof -
  let ?req = "get_request ''GET /live-test.html''"
  let ?h = "(new_handler process1 ?req)\<lparr>command := Some ''GET'',
        path := ''/live-test.html'', request_version := ''HTTP/0.9'',
        requestline := ''GET /live-test.html'', headers := []\<rparr>"
  let ?p = "ROOT @ ''/live-test.html''"
  have f: "finish_request lib0 process1 ?req = do_GET kernel1 lib0 ?h"
    by (simp add: finish_request_def handle_def handle_one_request_def parse_simple_request)
      (simp add: new_handler_def CRLF_def)
  have tp: "translate_path lib0 ?h (path ?h) = ?p"
    by (simp add: translate_live_test new_handler_def ROOT_join)
  have nodir: "\<not> isdir kernel1 ?p"
    by (simp add: kernel1_def ROOT_def)
  have op: "open_rb kernel1 ?p = Returns live_test_file"
    by (simp add: kernel1_def ROOT_def)
  have ns: "\<not> endswith ?p ''/''"
    by (simp add: endswith_slash)
  have sh: "send_head kernel1 lib0 ?h = send_file kernel1 lib0 ?p (stat_call ?p ?h)"
    using nodir tp by (simp add: send_head_def Let_def)
  have c: "copyfileobj (content live_test_file) x = wfile_write ''<html>live</html>'' x" for x
    using copyfileobj_small [of "''<html>live</html>''" x]
    by (simp add: live_test_file_def COPY_BUFSIZE_def)
  have s: "sent (events (snd (do_GET kernel1 lib0 ?h))) = [''<html>live</html>'']"
    unfolding do_GET_def sh
    using op ns
    by (simp add: send_file_def Let_def header_in_def copyfile_def c new_handler_def)
  have n: "\<not> sublist ''Cross-Origin-Embedder-Policy'' ''<html>live</html>''"
    "\<not> sublist ''Cross-Origin-Opener-Policy'' ''<html>live</html>''"
    by (auto dest: sublist_length_le)
  from f s n show ?thesis by simp
qed

subsection \<open>Requests that are answered otherwise\<close>





text \<open>
  C7 without its conditions. The directory \<^verbatim>\<open>assets\<close> is there and holds no index file,
  and the process may not list it: the answer is \<^verbatim>\<open>404\<close> with the message
  \<^verbatim>\<open>No permission to list directory\<close>.
\<close>

theorem directory_listed_counterexample:
  "isdir (kernel process5) (ROOT @ ''/assets/'')
   \<and> \<not> isfile (kernel process5) (ROOT @ ''/assets/index.html'')
   \<and> \<not> isfile (kernel process5) (ROOT @ ''/assets/index.htm'')
   \<and> listdir (kernel process5) (ROOT @ ''/assets/'') = Throws (OSError EACCES)
   \<and> sent (events (snd (finish_request lib0 process5 (get_request ''GET /assets/ HTTP/1.1'')))) =
        [concat [''HTTP/1.0 404 No permission to list directory'' @ CRLF,
                 ''Server: '' @ version_string lib0 @ CRLF,
                 ''Date: '' @ date_time_string lib0 2000 @ CRLF,
                 ''Connection: close'' @ CRLF,
                 ''Content-Type: text/html;charset=utf-8'' @ CRLF,
                 ''Content-Length: ''
                   @ str_nat (length (error_body NOT_FOUND (Some ''No permission to list directory'') None))
                   @ CRLF,
                 COEP_line, COOP_line, CRLF],
         error_body NOT_FOUND (Some ''No permission to list directory'') None]"
proof -
  let ?req = "get_request ''GET /assets/ HTTP/1.1''"
  let ?h = "parsed_handler process5 ?req ''GET'' ''/assets/'' ''HTTP/1.1'' []"
  let ?p = "ROOT @ ''/assets/''"
  let ?m = "Some ''No permission to list directory''"
  have raw: "raw_requestline ?req = ''GET'' @ '' '' @ ''/assets/'' @ '' '' @ ''HTTP/1.1'' @ CRLF"
    by simp
  have len: "length (raw_requestline ?req) \<le> 65536"
    by (simp add: CRLF_def)
  have f: "finish_request lib0 process5 ?req = do_GET kernel5 lib0 ?h"
    using handle_wellformed [OF raw len, of "[]" lib0 process5]
    by (simp add: isspace_def)
  have v: "request_version ?h \<noteq> ''HTTP/0.9''"
    by (simp add: parsed_handler_def)
  have pa: "path ?h = ''/assets/''"
    by (simp add: parsed_handler_def request_path_def startswith_def)
  have tp: "translate_path lib0 ?h (path ?h) = ?p"
    by (simp add: pa translate_assets) (simp add: parsed_handler_def ROOT_join)
  have dir: "isdir kernel5 ?p"
    by (simp add: kernel5_def kernel1_def)
  have split: "urlsplit lib0 ''/assets/'' = Returns ([], [], ''/assets/'', [], [])"
    by (simp add: lib0_def)
  have ix: "path_join ?p ''index.html'' = ROOT @ ''/assets/index.html''"
    "path_join ?p ''index.htm'' = ROOT @ ''/assets/index.htm''"
    by (simp_all add: path_join_def startswith_def endswith_slash)
  have noindex: "\<not> isfile kernel5 (ROOT @ ''/assets/index.html'')"
    "\<not> isfile kernel5 (ROOT @ ''/assets/index.htm'')"
    by (simp_all add: kernel5_def kernel1_def ROOT_def)
  have names: "listdir kernel5 ?p = Throws (OSError EACCES)"
    by (simp add: kernel5_def)
  let ?h2 = "stat_call (path_join ?p ''index.htm'') (stat_call (path_join ?p ''index.html'') (stat_call ?p ?h))"
  have fi: "find_index kernel5 ?p (stat_call ?p ?h) = (None, ?h2)"
    using noindex by (simp add: find_index_def Let_def ix)
  let ?h3 = "?h2\<lparr>events := events ?h2 @ [Listdir ?p]\<rparr>"
  have ld: "list_directory kernel5 lib0 ?p ?h2 = (Returns None, send_error lib0 NOT_FOUND ?m None ?h3)"
    using names by (simp add: list_directory_def Let_def)
  have sh: "send_head kernel5 lib0 ?h = (Returns None, send_error lib0 NOT_FOUND ?m None ?h3)"
    using dir tp split fi ld by (simp add: send_head_def Let_def endswith_slash pa)
  have g: "do_GET kernel5 lib0 ?h = (Normal, send_error lib0 NOT_FOUND ?m None ?h3)"
    by (simp add: do_GET_def sh)
  have v3: "request_version ?h3 \<noteq> ''HTTP/0.9''"
    using v by simp
  have s3: "sent (events ?h3) = []" "headers_buffer ?h3 = []" "command ?h3 \<noteq> Some ''HEAD''"
    "now (request ?h3) = 2000"
    by (simp_all add: parsed_handler_def)
  have s: "sent (events (send_error lib0 NOT_FOUND ?m None ?h3)) =
        [concat [''HTTP/1.0 404 No permission to list directory'' @ CRLF,
                 ''Server: '' @ version_string lib0 @ CRLF,
                 ''Date: '' @ date_time_string lib0 2000 @ CRLF,
                 ''Connection: close'' @ CRLF,
                 ''Content-Type: text/html;charset=utf-8'' @ CRLF,
                 ''Content-Length: ''
                   @ str_nat (length (error_body NOT_FOUND ?m None)) @ CRLF,
                 COEP_line, COOP_line, CRLF],
         error_body NOT_FOUND ?m None]"
    using send_error_sent [OF v3, of NOT_FOUND lib0 ?m None] s3
    by (simp add: status_line_def protocol_version_def str_nat_statuses error_content_type_def)
  from f g s dir noindex names show ?thesis by simp
qed

end
